theory Spec2Isabelle
  imports Main "HOL-Library.Word"
begin

section \<open>Worker bootstrap of mtsutil (src/mitsuba/mtsutil.cpp)\<close>

text \<open>
  The development follows \<^verbatim>\<open>mtsutil.cpp\<close>: the host-specification handling and the
  scheduler set-up inside \<^verbatim>\<open>ubi_main\<close> (lines 118-266), the plugin constructor
  \<^verbatim>\<open>UtilityPlugin::UtilityPlugin\<close> with \<^verbatim>\<open>getSymbol\<close> (lines 53-99), and
  \<^verbatim>\<open>main\<close> (lines 268-348).  Exceptions are values, the scheduler, the loader and the
  log are explicit state, and every collaborator that lives outside the file
  (streams, workers, the dynamic loader, the file system) is a parameter.
\<close>

subsection \<open>Exceptions\<close>

text \<open>
  \<^verbatim>\<open>SLog(EError, fmt, ...)\<close> is a macro of the core library, which is not part of the
  source file.  Modelled from the spec: a message logged at error level is fatal, it
  leaves the current function as an exception (section 7, "Propagation policy").  The
  exception is a \<^verbatim>\<open>std::runtime_error\<close>, which is what the handler in line 234 expects.
  One constructor of \<open>message\<close> stands for each format string that the file passes
  to \<^verbatim>\<open>SLog(EError, ...)\<close>; \<open>Foreign\<close> is the text of a failure raised by a
  collaborator.
\<close>

datatype message =
    InvalidHostSpecification string  \<comment> \<open>"Invalid host specification '%s'!", lines 213, 217, 224\<close>
  | CouldNotOpenHostFile             \<comment> \<open>"Could not open host file!", line 151\<close>
  | CouldNotParseProcessorCount      \<comment> \<open>"Could not parse the processor count!", line 169\<close>
  | ErrorWhileLoadingPlugin string   \<comment> \<open>"Error while loading plugin ...", lines 57, 63\<close>
  | CouldNotResolveSymbol string     \<comment> \<open>"Could not resolve symbol ...", lines 88, 94\<close>
  | Foreign string

datatype exn =
    RuntimeError message   \<comment> \<open>\<^verbatim>\<open>std::runtime_error\<close> and what derives from it\<close>
  | StdException string    \<comment> \<open>any other \<^verbatim>\<open>std::exception\<close>\<close>
  | UnknownException       \<comment> \<open>anything else that can be thrown\<close>

subsection \<open>Strings: tokenize, strtol, formatString\<close>

text \<open>
  Modelled from the spec: \<^verbatim>\<open>tokenize(string, delim)\<close> is declared in the core library
  and absent from the source file.  The spec has a host string of zero tokens
  (section 4.1, step 2) and the empty text giving the empty sequence, so a token is a
  maximal non-empty run of characters none of which occurs in \<open>delim\<close>.  The scan
  \<open>split_runs\<close> keeps the token read so far in \<open>cur\<close>; it also serves for the
  words that \<^verbatim>\<open>operator>>\<close> extracts from a stream.
\<close>

fun split_runs :: "(char \<Rightarrow> bool) \<Rightarrow> string \<Rightarrow> string \<Rightarrow> string list" where
  "split_runs sep cur [] = (if cur = [] then [] else [cur])"
| "split_runs sep cur (c # cs) =
     (if sep c
      then (if cur = [] then [] else [cur]) @ split_runs sep [] cs
      else split_runs sep (cur @ [c]) cs)"

definition tokenize :: "string \<Rightarrow> string \<Rightarrow> string list" where
  "tokenize s delim = split_runs (\<lambda>c. c \<in> set delim) [] s"

text \<open>
  \<^verbatim>\<open>strtol(s, &end_ptr, 10)\<close> of the C library: white space is skipped, one sign is
  accepted, then decimal digits are read.  The result is the value and the text that
  \<^verbatim>\<open>end_ptr\<close> points to.  Without any digit nothing is consumed and the value is 0.  A
  value outside \<^verbatim>\<open>long\<close> is clamped (64 bits, the branch that is not \<^verbatim>\<open>WIN32\<close>).
\<close>

definition isspace :: "char \<Rightarrow> bool" where
  "isspace c = (c = CHR 0x20 \<or> c = CHR 0x09 \<or> c = CHR 0x0A \<or> c = CHR 0x0B
                \<or> c = CHR 0x0C \<or> c = CHR 0x0D)"

definition isdigit :: "char \<Rightarrow> bool" where
  "isdigit c = (48 \<le> (of_char c :: nat) \<and> (of_char c :: nat) \<le> 57)"

definition digit_value :: "char \<Rightarrow> int" where
  "digit_value c = int (of_char c) - 48"

definition decimal :: "string \<Rightarrow> int" where
  "decimal ds = foldl (\<lambda>a c. a * 10 + digit_value c) 0 ds"

definition LONG_MAX :: int where
  "LONG_MAX = 2 ^ 63 - 1"

definition LONG_MIN :: int where
  "LONG_MIN = - (2 ^ 63)"

definition clamp_long :: "int \<Rightarrow> int" where
  "clamp_long v = (if v < LONG_MIN then LONG_MIN else if LONG_MAX < v then LONG_MAX else v)"

definition strtol :: "string \<Rightarrow> int \<times> string" where
  "strtol s =
     (let t = dropWhile isspace s;
          neg = (t \<noteq> [] \<and> hd t = CHR ''-'');
          u = (if t \<noteq> [] \<and> (hd t = CHR ''-'' \<or> hd t = CHR ''+'') then tl t else t);
          ds = takeWhile isdigit u
      in if ds = [] then (0, s)
         else (clamp_long (if neg then - decimal ds else decimal ds), dropWhile isdigit u))"

text \<open>The assignment of a \<^verbatim>\<open>long\<close> to an \<^verbatim>\<open>int\<close> variable keeps the low 32 bits.\<close>

definition int_of_long :: "int \<Rightarrow> int" where
  "int_of_long v = sint (word_of_int v :: 32 word)"

text \<open>
  Modelled from the spec: \<^verbatim>\<open>formatString\<close> belongs to the core library.  The spec
  names the workers \<^verbatim>\<open>wrk{i}\<close> and \<^verbatim>\<open>net{i}\<close>, the index written in decimal.
\<close>

function show_nat :: "nat \<Rightarrow> string" where
  "show_nat n =
     (if n < 10 then [char_of (48 + n)]
      else show_nat (n div 10) @ [char_of (48 + n mod 10)])"
  by pat_completeness auto
termination
  by (relation "measure id") auto

definition show_int :: "int \<Rightarrow> string" where
  "show_int i = (if i < 0 then CHR ''-'' # show_nat (nat (- i)) else show_nat (nat i))"

definition wrk :: "int \<Rightarrow> string" where
  "wrk i = ''wrk'' @ show_int i"

definition net :: "nat \<Rightarrow> string" where
  "net i = ''net'' @ show_nat i"

subsection \<open>Host specifications (ubi\_main, lines 209-227)\<close>

text \<open>
  The values the loop body computes from one host string before it opens a stream:
  host and port for \<^verbatim>\<open>SocketStream\<close>, or user, host and path for \<^verbatim>\<open>SSHStream\<close>.
  \<^verbatim>\<open>MTS_DEFAULT_PORT\<close> is a macro of the core library and stays a parameter.
\<close>

datatype descriptor =
    Direct string int
  | Tunnel string string string

definition parse_direct :: "int \<Rightarrow> string \<Rightarrow> exn + descriptor" where
  "parse_direct default_port hostName =
     (let tokens = tokenize hostName '':'' in
      if length tokens = 0 \<or> length tokens > 2
      then Inl (RuntimeError (InvalidHostSpecification hostName))
      else if length tokens = 2
      then (case strtol (tokens ! 1) of
              (v, end_ptr) \<Rightarrow>
                if end_ptr \<noteq> []
                then Inl (RuntimeError (InvalidHostSpecification hostName))
                else Inr (Direct (tokens ! 0) (int_of_long v)))
      else Inr (Direct (tokens ! 0) default_port))"

definition parse_tunnel :: "string \<Rightarrow> exn + descriptor" where
  "parse_tunnel hostName =
     (let tokens = tokenize hostName ''@:'' in
      if length tokens < 2 \<or> length tokens > 3
      then Inl (RuntimeError (InvalidHostSpecification hostName))
      else if length tokens = 3
      then Inr (Tunnel (tokens ! 0) (tokens ! 1) (tokens ! 2))
      else Inr (Tunnel (tokens ! 0) (tokens ! 1) ''~/mitsuba''))"

definition parse_host :: "int \<Rightarrow> string \<Rightarrow> exn + descriptor" where
  "parse_host default_port hostName =
     (if CHR ''@'' \<notin> set hostName
      then parse_direct default_port hostName
      else parse_tunnel hostName)"

subsection \<open>Collaborators and state\<close>

text \<open>
  The streams and workers the loop constructs (lines 201, 219, 230, 233).  The command
  of an \<^verbatim>\<open>SSHStream\<close> is the single line built in line 229.
\<close>

datatype stream =
    SocketStream string int
  | SSHStream string string "string list"

datatype worker =
    LocalWorker string
  | RemoteWorker string stream

definition stream_of :: "descriptor \<Rightarrow> stream" where
  "stream_of d =
     (case d of
        Direct host port \<Rightarrow> SocketStream host port
      | Tunnel user host path \<Rightarrow>
          SSHStream user host
            [''bash -c '' @ [CHR 0x27] @ ''cd '' @ path @ ''; . setpath.sh; mtssrv -ls'' @ [CHR 0x27]])"

text \<open>
  What the program does to the world outside it, in program order, and the state of
  the scheduler that results.  \<open>workers\<close> are the registrations the scheduler holds;
  a failed registration leaves them as they were.
\<close>

datatype call =
    NewStream stream
  | RegisterWorker worker
  | SchedulerStart
  | AddPath string
  | AddPathFromFile string
  | CreateObject string

datatype out =
    Help
  | Warn string
  | Stderr string
  | Critical exn  \<comment> \<open>"Caught a critical exeption: " and \<^verbatim>\<open>e.what()\<close>, line 260\<close>

record world =
  workers :: "worker list"
  started :: bool
  calls :: "call list"
  printed :: "out list"

text \<open>
  The collaborators: whether a stream constructor throws, whether the construction and
  registration of a worker throws, the content of a host file (\<open>None\<close>: it cannot
  be opened), whether the creation of the utility throws, what \<^verbatim>\<open>readlink\<close> finds
  for \<^verbatim>\<open>/proc/self/exe\<close> (\<open>None\<close>: it fails), and the constants of the platform.
\<close>

record env =
  stream_fails :: "stream \<Rightarrow> exn option"
  registration :: "worker \<Rightarrow> exn option"
  host_file :: "string \<Rightarrow> string option"
  utility_fails :: "string \<Rightarrow> exn option"
  exe_path :: "string option"
  xerces_fails :: bool
  getProcessorCount :: int
  MTS_DEFAULT_PORT :: int

definition registerWorker :: "env \<Rightarrow> worker \<Rightarrow> world \<Rightarrow> world \<times> exn option" where
  "registerWorker env wk w =
     (let w1 = w\<lparr>calls := calls w @ [RegisterWorker wk]\<rparr> in
      case registration env wk of
        Some e \<Rightarrow> (w1, Some e)
      | None \<Rightarrow> (w1\<lparr>workers := workers w1 @ [wk]\<rparr>, None))"

definition new_stream :: "env \<Rightarrow> stream \<Rightarrow> world \<Rightarrow> world \<times> exn option" where
  "new_stream env st w =
     (w\<lparr>calls := calls w @ [NewStream st]\<rparr>, stream_fails env st)"

text \<open>The warning of line 240 (the branch that is not \<^verbatim>\<open>WIN32\<close>).\<close>

definition passwordless_hint :: string where
  "passwordless_hint =
     ''Please ensure that passwordless authentication is enabled (e.g. using ssh-agent - see the documentation for more information)''"

subsection \<open>The scheduling subsystem (ubi\_main, lines 199-248)\<close>

text \<open>
  The loop of lines 200-201 over the \<^verbatim>\<open>int\<close> counter.  The counter is increased
  only while it is below \<^verbatim>\<open>nprocs\<close>, so it never leaves the range of \<^verbatim>\<open>int\<close>.
\<close>

function register_local :: "env \<Rightarrow> int \<Rightarrow> int \<Rightarrow> world \<Rightarrow> world \<times> exn option" where
  "register_local env i nprocs w =
     (if i < nprocs
      then (case registerWorker env (LocalWorker (wrk i)) w of
              (w', Some e) \<Rightarrow> (w', Some e)
            | (w', None) \<Rightarrow> register_local env (i + 1) nprocs w')
      else (w, None))"
  by pat_completeness auto
termination
  by (relation "measure (\<lambda>(env, i, nprocs, w). nat (nprocs - i))") auto

text \<open>
  One round of the loop of lines 205-246.  The stream is constructed outside the
  \<^verbatim>\<open>try\<close> block of line 232; the handler of line 234 takes a \<^verbatim>\<open>std::runtime_error\<close>
  only, and throws it again.
\<close>

definition connect_host :: "env \<Rightarrow> nat \<Rightarrow> string \<Rightarrow> world \<Rightarrow> world \<times> exn option" where
  "connect_host env i hostName w =
     (case parse_host (MTS_DEFAULT_PORT env) hostName of
        Inl e \<Rightarrow> (w, Some e)
      | Inr d \<Rightarrow>
          (case new_stream env (stream_of d) w of
             (w1, Some e) \<Rightarrow> (w1, Some e)
           | (w1, None) \<Rightarrow>
               (case registerWorker env (RemoteWorker (net i) (stream_of d)) w1 of
                  (w2, None) \<Rightarrow> (w2, None)
                | (w2, Some (RuntimeError m)) \<Rightarrow>
                    (if CHR ''@'' \<in> set hostName
                     then (w2\<lparr>printed := printed w2 @ [Warn passwordless_hint]\<rparr>,
                           Some (RuntimeError m))
                     else (w2, Some (RuntimeError m)))
                | (w2, Some e) \<Rightarrow> (w2, Some e))))"

fun connect_hosts :: "env \<Rightarrow> nat \<Rightarrow> string list \<Rightarrow> world \<Rightarrow> world \<times> exn option" where
  "connect_hosts env i [] w = (w, None)"
| "connect_hosts env i (hostName # hosts) w =
     (case connect_host env i hostName w of
        (w', Some e) \<Rightarrow> (w', Some e)
      | (w', None) \<Rightarrow> connect_hosts env (Suc i) hosts w')"

definition scheduler_start :: "world \<Rightarrow> world" where
  "scheduler_start w = w\<lparr>started := True, calls := calls w @ [SchedulerStart]\<rparr>"

definition assemble :: "env \<Rightarrow> int \<Rightarrow> string \<Rightarrow> world \<Rightarrow> world \<times> exn option" where
  "assemble env nprocs networkHosts w =
     (case register_local env 0 nprocs w of
        (w1, Some e) \<Rightarrow> (w1, Some e)
      | (w1, None) \<Rightarrow>
          (case connect_hosts env 0 (tokenize networkHosts '';'') w1 of
             (w2, Some e) \<Rightarrow> (w2, Some e)
           | (w2, None) \<Rightarrow> (scheduler_start w2, None)))"

subsection \<open>Command-line options (ubi\_main, lines 122-179)\<close>

text \<open>
  \<^verbatim>\<open>getopt\<close> belongs to the platform.  Its successive results, the option character
  and \<^verbatim>\<open>optarg\<close>, are the input \<open>options\<close>; \<open>operands\<close> are the arguments from
  \<^verbatim>\<open>argv[optind]\<close> on, so \<^verbatim>\<open>argc <= optind\<close> says that there is none.
\<close>

record cmdline =
  argc :: nat
  options :: "(char \<times> string) list"
  operands :: "string list"

datatype ELogLevel = EInfo | EDebug

record settings =
  nprocs :: int
  nodeName :: string
  networkHosts :: string
  quietMode :: bool
  logLevel :: ELogLevel

datatype 'a flow =
    Next 'a
  | Return int
  | Throw exn

text \<open>The loop of lines 153-157 over the words that \<^verbatim>\<open>is >> host\<close> extracts.\<close>

fun read_hosts :: "string list \<Rightarrow> string \<Rightarrow> string" where
  "read_hosts [] nh = nh"
| "read_hosts (host # rest) nh =
     (if length host < 1 \<or> hd host = CHR ''#''
      then read_hosts rest nh
      else read_hosts rest (nh @ '';'' @ host))"

definition handle_option ::
  "env \<Rightarrow> char \<Rightarrow> string \<Rightarrow> settings \<Rightarrow> world \<Rightarrow> world \<times> settings flow" where
  "handle_option env optchar optarg s w =
     (if optchar = CHR ''a''
      then (w\<lparr>calls := calls w @ map AddPath (tokenize optarg '';'')\<rparr>, Next s)
      else if optchar = CHR ''c''
      then (w, Next (s\<lparr>networkHosts := networkHosts s @ '';'' @ optarg\<rparr>))
      else if optchar = CHR ''s''
      then (case host_file env optarg of
              None \<Rightarrow> (w, Throw (RuntimeError CouldNotOpenHostFile))
            | Some text \<Rightarrow>
                (w, Next (s\<lparr>networkHosts :=
                             read_hosts (split_runs isspace [] text) (networkHosts s)\<rparr>)))
      else if optchar = CHR ''n''
      then (w, Next (s\<lparr>nodeName := optarg\<rparr>))
      else if optchar = CHR ''v''
      then (w, Next (s\<lparr>logLevel := EDebug\<rparr>))
      else if optchar = CHR ''p''
      then (case strtol optarg of
              (v, end_ptr) \<Rightarrow>
                if end_ptr \<noteq> []
                then (w, Throw (RuntimeError CouldNotParseProcessorCount))
                else (w, Next (s\<lparr>nprocs := int_of_long v\<rparr>)))
      else if optchar = CHR ''q''
      then (w, Next (s\<lparr>quietMode := True\<rparr>))
      else (w\<lparr>printed := printed w @ [Help]\<rparr>, Return 0))"

fun parse_options ::
  "env \<Rightarrow> (char \<times> string) list \<Rightarrow> settings \<Rightarrow> world \<Rightarrow> world \<times> settings flow" where
  "parse_options env [] s w = (w, Next s)"
| "parse_options env ((optchar, optarg) # rest) s w =
     (case handle_option env optchar optarg s w of
        (w', Next s') \<Rightarrow> parse_options env rest s' w'
      | (w', Return r) \<Rightarrow> (w', Return r)
      | (w', Throw e) \<Rightarrow> (w', Throw e))"

definition default_settings :: "env \<Rightarrow> string \<Rightarrow> settings" where
  "default_settings env hostName =
     \<lparr>nprocs = getProcessorCount env, nodeName = hostName, networkHosts = [],
      quietMode = False, logLevel = EInfo\<rparr>"

subsection \<open>ubi\_main and main\<close>

text \<open>
  The two handlers of lines 259-263 print a line and leave the \<^verbatim>\<open>try\<close> statement;
  control then reaches the \<^verbatim>\<open>return 0\<close> of line 265.  The set-up of the logger
  (lines 182-196) calls collaborators only and is left out.  Lines 255-257 do not use
  \<^verbatim>\<open>argv[optind]\<close>: whatever the utility name is, the plugin manager is asked for the
  object with the properties \<^verbatim>\<open>"gaussian"\<close>.
\<close>

definition caught :: "exn \<Rightarrow> world \<Rightarrow> world" where
  "caught e w =
     (case e of
        UnknownException \<Rightarrow>
          w\<lparr>printed := printed w @ [Stderr ''Caught a critical exeption of unknown type!'']\<rparr>
      | _ \<Rightarrow> w\<lparr>printed := printed w @ [Critical e]\<rparr>)"

definition ubi_main :: "env \<Rightarrow> string \<Rightarrow> cmdline \<Rightarrow> world \<Rightarrow> world \<times> int" where
  "ubi_main env hostName cmd w =
     (if argc cmd < 2 then (w\<lparr>printed := printed w @ [Help]\<rparr>, 0)
      else
        (case parse_options env (options cmd) (default_settings env hostName) w of
           (w1, Return r) \<Rightarrow> (w1, r)
         | (w1, Throw e) \<Rightarrow> (caught e w1, 0)
         | (w1, Next s) \<Rightarrow>
             (case assemble env (nprocs s) (networkHosts s) w1 of
                (w2, Some e) \<Rightarrow> (caught e w2, 0)
              | (w2, None) \<Rightarrow>
                  if operands cmd = []
                  then (w2\<lparr>printed := printed w2 @ [Stderr ''A utility name must be supplied!'']\<rparr>,
                        - 1)
                  else
                    (let w3 = w2\<lparr>calls := calls w2 @ [CreateObject ''gaussian'']\<rparr> in
                     case utility_fails env ''gaussian'' of
                       Some e \<Rightarrow> (caught e w3, 0)
                     | None \<Rightarrow> (w3, 0)))))"

text \<open>
  \<^verbatim>\<open>main\<close>, on the branch for Linux (lines 296-306): the directory of the executable
  is added to the search path, or a warning is logged when it cannot be determined,
  and then \<^verbatim>\<open>/usr/share/mitsuba\<close> is added.  After that \<^verbatim>\<open>main\<close> returns what
  \<^verbatim>\<open>ubi_main\<close> returns.  When the XML library cannot be initialised, the handler of
  line 323 logs at error level; that exception leaves \<^verbatim>\<open>main\<close>, and the process is
  terminated.  The initialisation and the shutdown of the core framework call
  collaborators only and are left out.
\<close>

datatype status =
    Exit int
  | Terminated

definition resolver_setup :: "env \<Rightarrow> world \<Rightarrow> world" where
  "resolver_setup env w =
     (let w1 = (case exe_path env of
                  Some exePath \<Rightarrow> w\<lparr>calls := calls w @ [AddPathFromFile exePath]\<rparr>
                | None \<Rightarrow>
                    w\<lparr>printed := printed w @ [Warn ''Could not determine the executable path'']\<rparr>)
      in w1\<lparr>calls := calls w1 @ [AddPath ''/usr/share/mitsuba'']\<rparr>)"

definition main :: "env \<Rightarrow> string \<Rightarrow> cmdline \<Rightarrow> world \<Rightarrow> world \<times> status" where
  "main env hostName cmd w =
     (let w0 = resolver_setup env w in
      if xerces_fails env then (w0, Terminated)
      else (case ubi_main env hostName cmd w0 of (w', retval) \<Rightarrow> (w', Exit retval)))"

subsection \<open>The plugin (UtilityPlugin, lines 47-116)\<close>

text \<open>
  The dynamic loader of the platform: whether a module can be opened, and which
  symbols it exports.  \<open>handles\<close> are the modules the process holds open, one entry
  for each handle; \<open>dl_calls\<close> are the calls in program order.
\<close>

record dynlib =
  dlopen_ok :: "string \<Rightarrow> bool"
  exports :: "string \<Rightarrow> string \<Rightarrow> bool"

datatype dl_call =
    Dlopen string
  | Dlsym string string
  | Dlclose string
  | StaticInitialization

record loader =
  handles :: "string list"
  dl_calls :: "dl_call list"
  refreshes :: nat

record plugin =
  m_handle :: string
  m_getDescription :: string
  m_createInstance :: string

definition dlopen :: "dynlib \<Rightarrow> string \<Rightarrow> loader \<Rightarrow> loader \<times> string option" where
  "dlopen dl path ld =
     (let ld1 = ld\<lparr>dl_calls := dl_calls ld @ [Dlopen path]\<rparr> in
      if dlopen_ok dl path then (ld1\<lparr>handles := path # handles ld1\<rparr>, Some path)
      else (ld1, None))"

definition dlclose :: "string \<Rightarrow> loader \<Rightarrow> loader" where
  "dlclose handle ld =
     ld\<lparr>handles := remove1 handle (handles ld), dl_calls := dl_calls ld @ [Dlclose handle]\<rparr>"

definition staticInitialization :: "loader \<Rightarrow> loader" where
  "staticInitialization ld =
     ld\<lparr>refreshes := Suc (refreshes ld), dl_calls := dl_calls ld @ [StaticInitialization]\<rparr>"

definition getSymbol :: "dynlib \<Rightarrow> string \<Rightarrow> string \<Rightarrow> loader \<Rightarrow> loader \<times> (exn + string)" where
  "getSymbol dl handle name ld =
     (let ld1 = ld\<lparr>dl_calls := dl_calls ld @ [Dlsym handle name]\<rparr> in
      if exports dl handle name then (ld1, Inr name)
      else (ld1, Inl (RuntimeError (CouldNotResolveSymbol name))))"

definition UtilityPlugin :: "dynlib \<Rightarrow> string \<Rightarrow> loader \<Rightarrow> loader \<times> (exn + plugin)" where
  "UtilityPlugin dl path ld =
     (case dlopen dl path ld of
        (ld1, None) \<Rightarrow> (ld1, Inl (RuntimeError (ErrorWhileLoadingPlugin path)))
      | (ld1, Some handle) \<Rightarrow>
          (case getSymbol dl handle ''GetDescription'' ld1 of
             (ld2, Inl e) \<Rightarrow> (dlclose handle ld2, Inl e)
           | (ld2, Inr getDescription) \<Rightarrow>
               (case getSymbol dl handle ''CreateInstance'' ld2 of
                  (ld3, Inl e) \<Rightarrow> (dlclose handle ld3, Inl e)
                | (ld3, Inr createInstance) \<Rightarrow>
                    (staticInitialization ld3,
                     Inr \<lparr>m_handle = handle, m_getDescription = getDescription,
                          m_createInstance = createInstance\<rparr>))))"

definition destroy :: "plugin \<Rightarrow> loader \<Rightarrow> loader" where
  "destroy pl ld = dlclose (m_handle pl) ld"

subsection \<open>The hosts an option contributes\<close>

text \<open>
  \<open>kept\<close> is the negation of the test of line 154.  \<open>appended_entries\<close> are the
  strings that one option appends to \<^verbatim>\<open>networkHosts\<close>, each behind a semicolon
  (lines 146 and 156).  \<open>unlines\<close> is a text file given by its lines, and
  \<open>listed_hosts\<close> are the hosts that an option names when a file is read line by
  line: the statement of the ordering of the hosts is made against it.
\<close>

definition kept :: "string \<Rightarrow> bool" where
  "kept host = (\<not> (length host < 1 \<or> hd host = CHR ''#''))"

definition appended_entries :: "env \<Rightarrow> char \<times> string \<Rightarrow> string list" where
  "appended_entries env opt =
     (case opt of (optchar, optarg) \<Rightarrow>
        if optchar = CHR ''a'' then []
        else if optchar = CHR ''c'' then [optarg]
        else if optchar = CHR ''s''
        then (case host_file env optarg of
                None \<Rightarrow> []
              | Some text \<Rightarrow> filter kept (split_runs isspace [] text))
        else [])"

definition unlines :: "string list \<Rightarrow> string" where
  "unlines ls = concat (map (\<lambda>l. l @ [CHR 0x0A]) ls)"

definition listed_hosts :: "(string \<Rightarrow> string list) \<Rightarrow> char \<times> string \<Rightarrow> string list" where
  "listed_hosts file_lines opt =
     (case opt of (optchar, optarg) \<Rightarrow>
        if optchar = CHR ''a'' then []
        else if optchar = CHR ''c'' then tokenize optarg '';''
        else if optchar = CHR ''s''
        then concat (map (\<lambda>l. tokenize l '';'')
                      (filter (\<lambda>l. l \<noteq> [] \<and> hd l \<noteq> CHR ''#'') (file_lines optarg)))
        else [])"

subsection \<open>Concrete runs\<close>

text \<open>
  A world in which nothing has happened yet, collaborators that never fail, and
  variations of them in which one collaborator fails.
\<close>

definition idle_world :: world where
  "idle_world = \<lparr>workers = [], started = False, calls = [], printed = []\<rparr>"

definition fresh_loader :: loader where
  "fresh_loader = \<lparr>handles = [], dl_calls = [], refreshes = 0\<rparr>"

definition reliable :: env where
  "reliable =
     \<lparr>stream_fails = (\<lambda>st. None), registration = (\<lambda>wk. None),
      host_file = (\<lambda>f. if f = ''servers'' then Some (unlines [''#farm'', [], ''render1'', ''render2'']) else None),
      utility_fails = (\<lambda>u. None), exe_path = Some ''/usr/bin/mtsutil'',
      xerces_fails = False, getProcessorCount = 2,
      MTS_DEFAULT_PORT = 7554\<rparr>"

definition ssh_refused :: env where
  "ssh_refused =
     reliable\<lparr>stream_fails :=
       (\<lambda>st. case st of
                SSHStream user host cmdLine \<Rightarrow> Some (RuntimeError (Foreign ''ssh''))
              | SocketStream host port \<Rightarrow> None)\<rparr>"

definition handshake_refused :: env where
  "handshake_refused =
     reliable\<lparr>registration :=
       (\<lambda>wk. case wk of
                RemoteWorker name st \<Rightarrow> Some (RuntimeError (Foreign ''handshake''))
              | LocalWorker name \<Rightarrow> None)\<rparr>"

definition second_host_down :: env where
  "second_host_down =
     reliable\<lparr>stream_fails :=
       (\<lambda>st. if st = SocketStream ''b'' 7554 then Some (RuntimeError (Foreign ''connect''))
              else None)\<rparr>"

definition no_factory :: dynlib where
  "no_factory = \<lparr>dlopen_ok = (\<lambda>path. True), exports = (\<lambda>path name. name = ''GetDescription'')\<rparr>"

section \<open>Properties\<close>

declare show_nat.simps [simp del]

subsection \<open>Tokens\<close>

lemma split_runs_append_sep:
  "sep d \<Longrightarrow> split_runs sep cur (a @ d # b) = split_runs sep cur a @ split_runs sep [] b"
  by (induction a arbitrary: cur) simp_all

lemma split_runs_nonempty: "[] \<notin> set (split_runs sep cur s)"
  by (induction s arbitrary: cur) simp_all

lemma split_runs_no_sep:
  "\<forall>c\<in>set s. \<not> sep c \<Longrightarrow> split_runs sep cur s = (if cur @ s = [] then [] else [cur @ s])"
  by (induction s arbitrary: cur) simp_all

lemma split_runs_tokens:
  "t \<in> set (split_runs sep cur s) \<Longrightarrow> \<forall>c\<in>set cur. \<not> sep c \<Longrightarrow> \<forall>c\<in>set t. \<not> sep c"
proof (induction s arbitrary: cur)
  case Nil
  then show ?case by (simp split: if_splits)
next
  case (Cons a s)
  show ?case
  proof (cases "sep a")
    case True
    with Cons.prems have "t = cur \<or> t \<in> set (split_runs sep [] s)"
      by (auto split: if_splits)
    then show ?thesis
      using Cons.prems(2) Cons.IH [of "[]"] by auto
  next
    case False
    with Cons.prems have "t \<in> set (split_runs sep (cur @ [a]) s)" by simp
    then show ?thesis
      using Cons.IH [of "cur @ [a]"] Cons.prems(2) False by auto
  qed
qed

lemma read_hosts_eq:
  "read_hosts ws nh = nh @ concat (map ((#) CHR '';'') (filter kept ws))"
  by (induction ws arbitrary: nh) (simp_all add: kept_def)

lemma handle_option_hosts:
  assumes "handle_option env optchar optarg s w = (w', Next s')"
  shows "networkHosts s' =
           networkHosts s @ concat (map ((#) CHR '';'') (appended_entries env (optchar, optarg)))"
  using assms
  by (auto simp: handle_option_def appended_entries_def read_hosts_eq
      split: if_splits option.splits prod.splits)

lemma parse_options_hosts:
  assumes "parse_options env opts s w = (w', Next s')"
  shows "networkHosts s' =
           networkHosts s @ concat (map ((#) CHR '';'') (concat (map (appended_entries env) opts)))"
  using assms
proof (induction opts arbitrary: s w)
  case Nil
  then show ?case by simp
next
  case (Cons opt opts)
  obtain optchar optarg where opt: "opt = (optchar, optarg)" by (cases opt)
  from Cons.prems opt obtain w1 s1 where
    step: "handle_option env optchar optarg s w = (w1, Next s1)"
    and rest: "parse_options env opts s1 w1 = (w', Next s')"
    by (auto split: prod.splits flow.splits)
  show ?case
    using handle_option_hosts [OF step] Cons.IH [OF rest] opt by simp
qed

lemma tokenize_append_delim:
  "d \<in> set delim \<Longrightarrow> tokenize (a @ d # b) delim = tokenize a delim @ tokenize b delim"
  by (simp add: tokenize_def split_runs_append_sep)

lemma tokenize_Nil: "tokenize [] delim = []"
  by (simp add: tokenize_def)

lemma tokenize_joined:
  "tokenize (x @ concat (map ((#) CHR '';'') hs)) '';'' =
     tokenize x '';'' @ concat (map (\<lambda>h. tokenize h '';'') hs)"
proof (induction hs arbitrary: x)
  case Nil
  then show ?case by simp
next
  case (Cons h hs)
  have "tokenize (x @ CHR '';'' # (h @ concat (map ((#) CHR '';'') hs))) '';'' =
        tokenize x '';'' @ tokenize (h @ concat (map ((#) CHR '';'') hs)) '';''"
    by (rule tokenize_append_delim) simp
  then show ?case by (simp add: Cons.IH)
qed

lemma tokenize_plain:
  "h \<noteq> [] \<Longrightarrow> CHR '';'' \<notin> set h \<Longrightarrow> tokenize h '';'' = [h]"
  unfolding tokenize_def by (subst split_runs_no_sep) auto

lemma words_unlines:
  assumes "\<forall>l\<in>set ls. \<forall>c\<in>set l. \<not> isspace c"
  shows "split_runs isspace [] (unlines ls) = filter (\<lambda>l. l \<noteq> []) ls"
  using assms
proof (induction ls)
  case Nil
  then show ?case by (simp add: unlines_def)
next
  case (Cons l ls)
  have nl: "isspace (CHR 0x0A)" by (simp add: isspace_def)
  have "unlines (l # ls) = l @ CHR 0x0A # unlines ls" by (simp add: unlines_def)
  then have "split_runs isspace [] (unlines (l # ls)) =
      split_runs isspace [] l @ split_runs isspace [] (unlines ls)"
    using split_runs_append_sep [of isspace "CHR 0x0A" "[]" l "unlines ls"] nl by simp
  moreover have "split_runs isspace [] l = (if l = [] then [] else [l])"
    using Cons.prems by (simp add: split_runs_no_sep)
  ultimately show ?case using Cons by simp
qed

lemma entries_listed:
  assumes "optchar = CHR ''s'' \<longrightarrow>
             host_file env optarg = Some (unlines (file_lines optarg))
             \<and> (\<forall>l\<in>set (file_lines optarg). \<forall>c\<in>set l. \<not> isspace c)"
  shows "concat (map (\<lambda>h. tokenize h '';'') (appended_entries env (optchar, optarg))) =
           listed_hosts file_lines (optchar, optarg)"
proof (cases "optchar = CHR ''s''")
  case True
  then have "split_runs isspace [] (unlines (file_lines optarg)) =
      filter (\<lambda>l. l \<noteq> []) (file_lines optarg)"
    using assms by (simp add: words_unlines)
  moreover have "(\<lambda>l. l \<noteq> [] \<and> kept l) = (\<lambda>l. l \<noteq> [] \<and> hd l \<noteq> CHR ''#'')"
    by (auto simp: kept_def)
  ultimately show ?thesis
    using True assms by (simp add: appended_entries_def listed_hosts_def conj_commute)
next
  case False
  then show ?thesis by (simp add: appended_entries_def listed_hosts_def)
qed


subsection \<open>strtol\<close>

lemma isdigit_not_isspace: "isdigit c \<Longrightarrow> \<not> isspace c"
  by (auto simp: isdigit_def isspace_def)

lemma isdigit_not_sign: "isdigit c \<Longrightarrow> c \<noteq> CHR ''-'' \<and> c \<noteq> CHR ''+''"
  by (auto simp: isdigit_def)

lemma strtol_digits:
  assumes "p \<noteq> []" and "\<forall>c\<in>set p. isdigit c"
  shows "strtol p = (clamp_long (decimal p), [])"
proof -
  obtain c cs where p: "p = c # cs" using assms(1) by (cases p) auto
  have c: "isdigit c" using assms(2) p by simp
  have t: "dropWhile isspace p = p" using c p isdigit_not_isspace by simp
  have tw: "takeWhile isdigit p = p" using assms(2) by (simp add: takeWhile_eq_all_conv)
  have dw: "dropWhile isdigit p = []" using assms(2) by simp
  have hd: "hd p \<noteq> CHR ''-'' \<and> hd p \<noteq> CHR ''+''" using c p isdigit_not_sign by simp
  show ?thesis
    unfolding strtol_def Let_def t using hd assms(1) by (simp add: tw dw)
qed

lemma int_of_long_small: "- (2 ^ 31) \<le> v \<Longrightarrow> v < 2 ^ 31 \<Longrightarrow> int_of_long v = v"
  unfolding int_of_long_def by (simp add: sint_sbintrunc' signed_take_bit_int_eq_self)

lemma decimal_nonneg_aux: "0 \<le> a \<Longrightarrow> \<forall>c\<in>set ds. isdigit c \<Longrightarrow> 0 \<le> foldl (\<lambda>a c. a * 10 + digit_value c) a ds"
  by (induction ds arbitrary: a) (auto simp: isdigit_def digit_value_def)

lemma decimal_nonneg: "\<forall>c\<in>set ds. isdigit c \<Longrightarrow> 0 \<le> decimal ds"
  unfolding decimal_def by (rule decimal_nonneg_aux) auto


subsection \<open>The two loops of the scheduling subsystem\<close>

declare register_local.simps [simp del]

lemma registerWorker_ok:
  "registration env wk = None \<Longrightarrow>
   registerWorker env wk w =
     (w\<lparr>workers := workers w @ [wk], calls := calls w @ [RegisterWorker wk]\<rparr>, None)"
  by (simp add: registerWorker_def)

lemma registerWorker_fails:
  "registration env wk = Some e \<Longrightarrow>
   registerWorker env wk w = (w\<lparr>calls := calls w @ [RegisterWorker wk]\<rparr>, Some e)"
  by (simp add: registerWorker_def)

lemma register_local_ok:
  assumes "\<forall>k. i \<le> k \<and> k < n \<longrightarrow> registration env (LocalWorker (wrk k)) = None"
  shows "register_local env i n w =
           (w\<lparr>workers := workers w @ map (\<lambda>k. LocalWorker (wrk k)) [i..n - 1],
              calls := calls w @ map (\<lambda>k. RegisterWorker (LocalWorker (wrk k))) [i..n - 1]\<rparr>,
            None)"
  using assms
proof (induction m \<equiv> "nat (n - i)" arbitrary: i w)
  case 0
  then have "\<not> i < n" by simp
  then show ?case by (simp add: register_local.simps)
next
  case (Suc m)
  then have lt: "i < n" by linarith
  have reg: "registration env (LocalWorker (wrk i)) = None" using Suc.prems lt by simp
  have up: "[i..n - 1] = i # [i + 1..n - 1]" using lt by (simp add: upto_rec1)
  have m: "m = nat (n - (i + 1))" using Suc.hyps(2) by linarith
  have rest: "\<forall>k. i + 1 \<le> k \<and> k < n \<longrightarrow> registration env (LocalWorker (wrk k)) = None"
    using Suc.prems by simp
  show ?case
    using lt by (subst register_local.simps) (simp add: registerWorker_ok [OF reg] Suc.hyps(1) [OF m rest] up)
qed

lemma register_local_none: "n \<le> i \<Longrightarrow> register_local env i n w = (w, None)"
  by (simp add: register_local.simps)

lemma connect_hosts_append:
  "connect_hosts env k (pre @ post) w =
     (case connect_hosts env k pre w of
        (w', Some e) \<Rightarrow> (w', Some e)
      | (w', None) \<Rightarrow> connect_hosts env (k + length pre) post w')"
  by (induction pre arbitrary: k w) (auto split: prod.splits option.splits)

lemma connect_host_ok:
  assumes "parse_host (MTS_DEFAULT_PORT env) hostName = Inr d"
    and "stream_fails env (stream_of d) = None"
    and "registration env (RemoteWorker (net i) (stream_of d)) = None"
  shows "connect_host env i hostName w =
           (w\<lparr>workers := workers w @ [RemoteWorker (net i) (stream_of d)],
              calls := calls w @ [NewStream (stream_of d),
                                  RegisterWorker (RemoteWorker (net i) (stream_of d))]\<rparr>,
            None)"
  using assms by (simp add: connect_host_def new_stream_def registerWorker_def)

lemma connect_hosts_ok:
  assumes "length ds = length hosts"
    and "\<forall>j<length hosts.
           parse_host (MTS_DEFAULT_PORT env) (hosts ! j) = Inr (ds ! j)
           \<and> stream_fails env (stream_of (ds ! j)) = None
           \<and> registration env (RemoteWorker (net (k + j)) (stream_of (ds ! j))) = None"
  shows "connect_hosts env k hosts w =
           (w\<lparr>workers := workers w @
                 map (\<lambda>j. RemoteWorker (net (k + j)) (stream_of (ds ! j))) [0..<length ds],
              calls := calls w @
                 concat (map (\<lambda>j. [NewStream (stream_of (ds ! j)),
                                    RegisterWorker (RemoteWorker (net (k + j)) (stream_of (ds ! j)))])
                           [0..<length ds])\<rparr>,
            None)"
  using assms
proof (induction hosts arbitrary: k ds w)
  case Nil
  then show ?case by simp
next
  case (Cons h hosts)
  then obtain d ds' where ds: "ds = d # ds'" by (cases ds) auto
  have len: "length ds' = length hosts" using Cons.prems(1) ds by simp
  have head: "parse_host (MTS_DEFAULT_PORT env) h = Inr d"
    "stream_fails env (stream_of d) = None"
    "registration env (RemoteWorker (net k) (stream_of d)) = None"
    using Cons.prems(2) [rule_format, of 0] ds by simp_all
  have tail: "\<forall>j<length hosts.
           parse_host (MTS_DEFAULT_PORT env) (hosts ! j) = Inr (ds' ! j)
           \<and> stream_fails env (stream_of (ds' ! j)) = None
           \<and> registration env (RemoteWorker (net (Suc k + j)) (stream_of (ds' ! j))) = None"
  proof (intro allI impI)
    fix j assume "j < length hosts"
    then show "parse_host (MTS_DEFAULT_PORT env) (hosts ! j) = Inr (ds' ! j)
           \<and> stream_fails env (stream_of (ds' ! j)) = None
           \<and> registration env (RemoteWorker (net (Suc k + j)) (stream_of (ds' ! j))) = None"
      using Cons.prems(2) [rule_format, of "Suc j"] ds by simp
  qed
  show ?case
    by (simp add: connect_host_ok [OF head] Cons.IH [OF len tail] ds map_upt_Suc del: upt_Suc)
qed

lemma connect_host_fails:
  assumes "parse_host (MTS_DEFAULT_PORT env) hostName = Inr d"
    and "stream_fails env (stream_of d) \<noteq> None
         \<or> registration env (RemoteWorker (net i) (stream_of d)) \<noteq> None"
  shows "\<exists>w' e. connect_host env i hostName w = (w', Some e)
           \<and> Some e = (case stream_fails env (stream_of d) of
                          Some x \<Rightarrow> Some x
                        | None \<Rightarrow> registration env (RemoteWorker (net i) (stream_of d)))
           \<and> started w' = started w
           \<and> workers w' = workers w
           \<and> calls w' = calls w @
                (if stream_fails env (stream_of d) \<noteq> None then [NewStream (stream_of d)]
                 else [NewStream (stream_of d),
                       RegisterWorker (RemoteWorker (net i) (stream_of d))])"
  using assms
  by (auto simp: connect_host_def new_stream_def registerWorker_def
      split: option.splits exn.splits)

lemma parse_host_kind:
  assumes "parse_host default_port hostName = Inr d"
  shows "(CHR ''@'' \<in> set hostName) = (\<exists>user host path. d = Tunnel user host path)"
  using assms
  by (auto simp: parse_host_def parse_direct_def parse_tunnel_def Let_def
      split: if_splits prod.splits)

subsection \<open>Worker names\<close>

lemma digit_char: "d < 10 \<Longrightarrow> isdigit (char_of (48 + d)) \<and> digit_value (char_of (48 + d :: nat)) = int d"
  by (simp add: isdigit_def digit_value_def)

lemma show_nat_nonempty: "show_nat m \<noteq> []"
  by (subst show_nat.simps) simp

lemma show_nat_digits: "\<forall>c\<in>set (show_nat m). isdigit c"
proof (induction m rule: show_nat.induct)
  case (1 n)
  show ?case
  proof (cases "n < 10")
    case True
    then show ?thesis by (subst show_nat.simps) (simp add: digit_char)
  next
    case False
    have "n mod 10 < 10" by simp
    then have "isdigit (char_of (48 + n mod 10))" using digit_char by blast
    then show ?thesis using False 1 by (subst show_nat.simps) simp
  qed
qed

lemma decimal_snoc: "decimal (ds @ [c]) = decimal ds * 10 + digit_value c"
  by (simp add: decimal_def)

lemma decimal_show_nat: "decimal (show_nat m) = int m"
proof (induction m rule: show_nat.induct)
  case (1 n)
  show ?case
  proof (cases "n < 10")
    case True
    then show ?thesis
      by (subst show_nat.simps) (simp add: decimal_def digit_char)
  next
    case False
    have "n mod 10 < 10" by simp
    then have d: "digit_value (char_of (48 + n mod 10)) = int (n mod 10)"
      using digit_char by blast
    have "decimal (show_nat n) =
        decimal (show_nat (n div 10)) * 10 + digit_value (char_of (48 + n mod 10))"
      using False by (subst show_nat.simps) (simp add: decimal_snoc)
    also have "\<dots> = int (n div 10) * 10 + int (n mod 10)"
      using 1 False d by simp
    also have "\<dots> = int n"
      by presburger
    finally show ?thesis .
  qed
qed

lemma show_nat_no_leading_zero: "m \<noteq> 0 \<Longrightarrow> hd (show_nat m) \<noteq> CHR ''0''"
proof (induction m rule: show_nat.induct)
  case (1 n)
  show ?case
  proof (cases "n < 10")
    case True
    have "char_of (48 + n) \<noteq> CHR ''0''"
    proof
      assume "char_of (48 + n) = CHR ''0''"
      then have "of_char (char_of (48 + n)) = (of_char CHR ''0'' :: nat)" by simp
      then show False using True "1.prems" by simp
    qed
    then show ?thesis using True by (subst show_nat.simps) simp
  next
    case False
    then have "n div 10 \<noteq> 0" by simp
    then have "hd (show_nat (n div 10)) \<noteq> CHR ''0''" using 1 False by simp
    then show ?thesis
      using False by (subst show_nat.simps) (simp add: show_nat_nonempty)
  qed
qed

lemma show_nat_zero: "show_nat 0 = ''0''"
  by code_simp

lemma show_nat_inj: "show_nat a = show_nat b \<Longrightarrow> a = b"
proof -
  assume "show_nat a = show_nat b"
  then have "decimal (show_nat a) = decimal (show_nat b)" by simp
  then show "a = b" by (simp add: decimal_show_nat)
qed

lemma show_nat_not_minus: "hd (show_nat m) \<noteq> CHR ''-''"
proof -
  have "hd (show_nat m) \<in> set (show_nat m)" by (simp add: show_nat_nonempty)
  then have "isdigit (hd (show_nat m))" using show_nat_digits by blast
  then show ?thesis by (auto simp: isdigit_def)
qed

lemma show_int_inj: "show_int a = show_int b \<Longrightarrow> a = b"
proof (cases "a < 0"; cases "b < 0")
  assume "show_int a = show_int b" "a < 0" "b < 0"
  then have "nat (- a) = nat (- b)" by (simp add: show_int_def show_nat_inj)
  then show ?thesis using \<open>a < 0\<close> \<open>b < 0\<close> by simp
next
  assume e: "show_int a = show_int b" and "a < 0" "\<not> b < 0"
  then have "CHR ''-'' # show_nat (nat (- a)) = show_nat (nat b)" by (simp add: show_int_def)
  then have "hd (show_nat (nat b)) = CHR ''-''" by (metis list.sel(1))
  then show ?thesis using show_nat_not_minus by blast
next
  assume e: "show_int a = show_int b" and "\<not> a < 0" "b < 0"
  then have "show_nat (nat a) = CHR ''-'' # show_nat (nat (- b))" by (simp add: show_int_def)
  then have "hd (show_nat (nat a)) = CHR ''-''" by simp
  then show ?thesis using show_nat_not_minus by blast
next
  assume "show_int a = show_int b" "\<not> a < 0" "\<not> b < 0"
  then have "nat a = nat b" by (simp add: show_int_def show_nat_inj)
  then show ?thesis using \<open>\<not> a < 0\<close> \<open>\<not> b < 0\<close> by simp
qed

lemma wrk_inj: "wrk a = wrk b \<Longrightarrow> a = b"
  by (simp add: wrk_def show_int_inj)

lemma net_inj: "net a = net b \<Longrightarrow> a = b"
  by (simp add: net_def show_nat_inj)

lemma wrk_not_net: "wrk a \<noteq> net b"
  by (simp add: wrk_def net_def)

section \<open>The claims\<close>

subsection \<open>Failure while the pool is assembled\<close>

text \<open>
  C1.  The local registrations succeed, the host strings up to index \<open>i\<close> are
  well-formed (\<open>ds\<close> are their descriptors), the hosts before \<open>i\<close> connect, and
  for host \<open>i\<close> the stream constructor or the registration of \<^verbatim>\<open>net{i}\<close> throws.
  Then the assembly ends with that exception.  The calls made are the local
  registrations, a stream and a registration for each host before \<open>i\<close>, and the
  failing attempt for host \<open>i\<close>: no stream is constructed for a later host and the
  scheduler is not started.  The scheduler still holds all of
  \<^verbatim>\<open>wrk0 .. wrk{n-1}\<close> and \<^verbatim>\<open>net0 .. net{i-1}\<close>; nothing is taken back.
\<close>

theorem assemble_aborts_on_failure:
  assumes locals: "\<forall>k. 0 \<le> k \<and> k < n \<longrightarrow> registration env (LocalWorker (wrk k)) = None"
    and i: "i < length (tokenize hostText '';'')"
    and ds: "length ds = Suc i"
    and parsed: "\<forall>j\<le>i. parse_host (MTS_DEFAULT_PORT env) (tokenize hostText '';'' ! j) = Inr (ds ! j)"
    and before: "\<forall>j<i. stream_fails env (stream_of (ds ! j)) = None
                   \<and> registration env (RemoteWorker (net j) (stream_of (ds ! j))) = None"
    and fails: "stream_fails env (stream_of (ds ! i)) \<noteq> None
                \<or> registration env (RemoteWorker (net i) (stream_of (ds ! i))) \<noteq> None"
  shows "\<exists>w' e. assemble env n hostText w = (w', Some e)
           \<and> Some e = (case stream_fails env (stream_of (ds ! i)) of
                          Some x \<Rightarrow> Some x
                        | None \<Rightarrow> registration env (RemoteWorker (net i) (stream_of (ds ! i))))
           \<and> started w' = started w
           \<and> workers w' = workers w @ map (\<lambda>k. LocalWorker (wrk k)) [0..n - 1]
                @ map (\<lambda>j. RemoteWorker (net j) (stream_of (ds ! j))) [0..<i]
           \<and> calls w' = calls w @ map (\<lambda>k. RegisterWorker (LocalWorker (wrk k))) [0..n - 1]
                @ concat (map (\<lambda>j. [NewStream (stream_of (ds ! j)),
                                     RegisterWorker (RemoteWorker (net j) (stream_of (ds ! j)))])
                            [0..<i])
                @ (if stream_fails env (stream_of (ds ! i)) \<noteq> None
                   then [NewStream (stream_of (ds ! i))]
                   else [NewStream (stream_of (ds ! i)),
                         RegisterWorker (RemoteWorker (net i) (stream_of (ds ! i)))])"
proof -
  define hosts where "hosts = tokenize hostText '';''"
  define wl where "wl = w\<lparr>workers := workers w @ map (\<lambda>k. LocalWorker (wrk k)) [0..n - 1],
              calls := calls w @ map (\<lambda>k. RegisterWorker (LocalWorker (wrk k))) [0..n - 1]\<rparr>"
  define wr where "wr = wl\<lparr>workers := workers wl @
                 map (\<lambda>j. RemoteWorker (net (0 + j)) (stream_of (take i ds ! j))) [0..<length (take i ds)],
              calls := calls wl @
                 concat (map (\<lambda>j. [NewStream (stream_of (take i ds ! j)),
                                    RegisterWorker (RemoteWorker (net (0 + j)) (stream_of (take i ds ! j)))])
                           [0..<length (take i ds)])\<rparr>"
  have split: "hosts = take i hosts @ hosts ! i # drop (Suc i) hosts"
    using i by (simp add: hosts_def id_take_nth_drop)
  have local: "register_local env 0 n w = (wl, None)"
    unfolding wl_def by (rule register_local_ok) (use locals in simp)
  have len: "length (take i ds) = length (take i hosts)"
    using i ds by (simp add: hosts_def)
  have pre: "connect_hosts env 0 (take i hosts) wl = (wr, None)"
    unfolding wr_def
  proof (rule connect_hosts_ok [OF len], intro allI impI)
    fix j assume "j < length (take i hosts)"
    then have j: "j < i" by simp
    then show "parse_host (MTS_DEFAULT_PORT env) (take i hosts ! j) = Inr (take i ds ! j)
         \<and> stream_fails env (stream_of (take i ds ! j)) = None
         \<and> registration env (RemoteWorker (net (0 + j)) (stream_of (take i ds ! j))) = None"
      using parsed before by (simp add: hosts_def)
  qed
  have at: "parse_host (MTS_DEFAULT_PORT env) (hosts ! i) = Inr (ds ! i)"
    using parsed by (simp add: hosts_def)
  from connect_host_fails [OF at fails, of wr] obtain w' e where
    step: "connect_host env i (hosts ! i) wr = (w', Some e)"
    and e: "Some e = (case stream_fails env (stream_of (ds ! i)) of
                          Some x \<Rightarrow> Some x
                        | None \<Rightarrow> registration env (RemoteWorker (net i) (stream_of (ds ! i))))"
    and st: "started w' = started wr" and wk: "workers w' = workers wr"
    and cl: "calls w' = calls wr @
                (if stream_fails env (stream_of (ds ! i)) \<noteq> None then [NewStream (stream_of (ds ! i))]
                 else [NewStream (stream_of (ds ! i)),
                       RegisterWorker (RemoteWorker (net i) (stream_of (ds ! i)))])"
    by blast
  have li: "min (length hosts) i = i" using i by (simp add: hosts_def)
  have "connect_hosts env 0 hosts wl = (w', Some e)"
    by (subst split) (simp add: connect_hosts_append pre step li)
  then have run: "assemble env n hostText w = (w', Some e)"
    by (simp add: assemble_def local hosts_def)
  have ti: "min (length ds) i = i" using ds by simp
  have m1: "map (\<lambda>j. RemoteWorker (net j) (stream_of (take i ds ! j))) [0..<i] =
            map (\<lambda>j. RemoteWorker (net j) (stream_of (ds ! j))) [0..<i]"
    by (rule map_cong) simp_all
  have m2: "map (\<lambda>j. [NewStream (stream_of (take i ds ! j)),
                       RegisterWorker (RemoteWorker (net j) (stream_of (take i ds ! j)))]) [0..<i] =
            map (\<lambda>j. [NewStream (stream_of (ds ! j)),
                       RegisterWorker (RemoteWorker (net j) (stream_of (ds ! j)))]) [0..<i]"
    by (rule map_cong) simp_all
  have wr_started: "started wr = started w"
    by (simp add: wr_def wl_def)
  have wr_workers: "workers wr = workers w @ map (\<lambda>k. LocalWorker (wrk k)) [0..n - 1]
                @ map (\<lambda>j. RemoteWorker (net j) (stream_of (ds ! j))) [0..<i]"
    by (simp add: wr_def wl_def ti m1)
  have wr_calls: "calls wr = calls w @ map (\<lambda>k. RegisterWorker (LocalWorker (wrk k))) [0..n - 1]
                @ concat (map (\<lambda>j. [NewStream (stream_of (ds ! j)),
                                     RegisterWorker (RemoteWorker (net j) (stream_of (ds ! j)))])
                            [0..<i])"
    by (simp add: wr_def wl_def ti m2)
  show ?thesis
  proof (intro exI conjI)
    show "assemble env n hostText w = (w', Some e)" by (rule run)
    show "Some e = (case stream_fails env (stream_of (ds ! i)) of
                          Some x \<Rightarrow> Some x
                        | None \<Rightarrow> registration env (RemoteWorker (net i) (stream_of (ds ! i))))"
      by (rule e)
    show "started w' = started w" by (simp add: st wr_started)
    show "workers w' = workers w @ map (\<lambda>k. LocalWorker (wrk k)) [0..n - 1]
                @ map (\<lambda>j. RemoteWorker (net j) (stream_of (ds ! j))) [0..<i]"
      by (simp only: wk wr_workers)
    show "calls w' = calls w @ map (\<lambda>k. RegisterWorker (LocalWorker (wrk k))) [0..n - 1]
                @ concat (map (\<lambda>j. [NewStream (stream_of (ds ! j)),
                                     RegisterWorker (RemoteWorker (net j) (stream_of (ds ! j)))])
                            [0..<i])
                @ (if stream_fails env (stream_of (ds ! i)) \<noteq> None
                   then [NewStream (stream_of (ds ! i))]
                   else [NewStream (stream_of (ds ! i)),
                         RegisterWorker (RemoteWorker (net i) (stream_of (ds ! i)))])"
      by (simp only: cl wr_calls append_assoc)
  qed
qed

theorem assemble_aborts_on_failure_witness:
  "\<exists>w' e. assemble second_host_down 2 '';a;b;c'' idle_world = (w', Some e)
     \<and> e = RuntimeError (Foreign ''connect'')
     \<and> started w' = False
     \<and> workers w' = [LocalWorker (wrk 0), LocalWorker (wrk 1),
                      RemoteWorker (net 0) (SocketStream ''a'' 7554)]
     \<and> calls w' = [RegisterWorker (LocalWorker (wrk 0)), RegisterWorker (LocalWorker (wrk 1)),
                    NewStream (SocketStream ''a'' 7554),
                    RegisterWorker (RemoteWorker (net 0) (SocketStream ''a'' 7554)),
                    NewStream (SocketStream ''b'' 7554)]"
proof -
  have t: "tokenize '';a;b;c'' '';'' = [''a'', ''b'', ''c'']"
    by (simp add: tokenize_def)
  have p: "parse_host 7554 ''a'' = Inr (Direct ''a'' 7554)"
    "parse_host 7554 ''b'' = Inr (Direct ''b'' 7554)"
    by (simp_all add: parse_host_def parse_direct_def tokenize_def)
  have locals: "\<forall>k. 0 \<le> k \<and> k < 2 \<longrightarrow> registration second_host_down (LocalWorker (wrk k)) = None"
    by (simp add: second_host_down_def reliable_def)
  have i: "1 < length (tokenize '';a;b;c'' '';'')" by (simp add: t)
  have ds: "length [Direct ''a'' 7554, Direct ''b'' 7554] = Suc 1" by simp
  have parsed: "\<forall>j\<le>1. parse_host (MTS_DEFAULT_PORT second_host_down) (tokenize '';a;b;c'' '';'' ! j)
      = Inr ([Direct ''a'' 7554, Direct ''b'' 7554] ! j)"
    by (simp add: t p second_host_down_def reliable_def le_Suc_eq all_conj_distrib)
  have before: "\<forall>j<1. stream_fails second_host_down (stream_of ([Direct ''a'' 7554, Direct ''b'' 7554] ! j)) = None
      \<and> registration second_host_down
          (RemoteWorker (net j) (stream_of ([Direct ''a'' 7554, Direct ''b'' 7554] ! j))) = None"
    by (simp add: second_host_down_def reliable_def stream_of_def)
  have fails: "stream_fails second_host_down (stream_of ([Direct ''a'' 7554, Direct ''b'' 7554] ! 1)) \<noteq> None
      \<or> registration second_host_down
          (RemoteWorker (net 1) (stream_of ([Direct ''a'' 7554, Direct ''b'' 7554] ! 1))) \<noteq> None"
    by (simp add: second_host_down_def reliable_def stream_of_def)
  have up: "[0..1] = [0, 1 :: int]" by (simp add: upto.simps)
  from assemble_aborts_on_failure [OF locals i ds parsed before fails, of idle_world]
  show ?thesis
    by (simp add: up idle_world_def second_host_down_def reliable_def stream_of_def)
qed

subsection \<open>The plugin constructor\<close>

text \<open>
  C2.  The constructor resolves \<^verbatim>\<open>GetDescription\<close> and then \<^verbatim>\<open>CreateInstance\<close>.
  It returns a plugin exactly when the module opens and both symbols resolve; the
  handle is then held and the class registry has been refreshed once, as the last
  call.  In every other case it throws, the set of open handles is what it was
  before (when the module had been opened, the last call is the \<^verbatim>\<open>dlclose\<close> of its
  handle), and the registry is not refreshed.
\<close>

theorem UtilityPlugin_rollback:
  assumes "UtilityPlugin dl path ld = (ld', r)"
  shows "case r of
           Inr pl \<Rightarrow>
             dlopen_ok dl path \<and> exports dl path ''GetDescription''
             \<and> exports dl path ''CreateInstance''
             \<and> pl = \<lparr>m_handle = path, m_getDescription = ''GetDescription'',
                      m_createInstance = ''CreateInstance''\<rparr>
             \<and> handles ld' = path # handles ld
             \<and> refreshes ld' = Suc (refreshes ld)
             \<and> dl_calls ld' = dl_calls ld @
                 [Dlopen path, Dlsym path ''GetDescription'', Dlsym path ''CreateInstance'',
                  StaticInitialization]
         | Inl e \<Rightarrow>
             handles ld' = handles ld \<and> refreshes ld' = refreshes ld
             \<and> (if \<not> dlopen_ok dl path
                 then e = RuntimeError (ErrorWhileLoadingPlugin path)
                      \<and> dl_calls ld' = dl_calls ld @ [Dlopen path]
                 else if \<not> exports dl path ''GetDescription''
                 then e = RuntimeError (CouldNotResolveSymbol ''GetDescription'')
                      \<and> dl_calls ld' = dl_calls ld @
                          [Dlopen path, Dlsym path ''GetDescription'', Dlclose path]
                 else \<not> exports dl path ''CreateInstance''
                      \<and> e = RuntimeError (CouldNotResolveSymbol ''CreateInstance'')
                      \<and> dl_calls ld' = dl_calls ld @
                          [Dlopen path, Dlsym path ''GetDescription'',
                           Dlsym path ''CreateInstance'', Dlclose path])"
  using assms
  by (auto simp: UtilityPlugin_def dlopen_def getSymbol_def dlclose_def staticInitialization_def
      Let_def split: if_splits)

theorem UtilityPlugin_rollback_witness:
  "UtilityPlugin no_factory ''util.so'' fresh_loader =
     (\<lparr>handles = [],
       dl_calls = [Dlopen ''util.so'', Dlsym ''util.so'' ''GetDescription'',
                   Dlsym ''util.so'' ''CreateInstance'', Dlclose ''util.so''],
       refreshes = 0\<rparr>,
      Inl (RuntimeError (CouldNotResolveSymbol ''CreateInstance'')))
   \<and> handles (fst (UtilityPlugin no_factory ''util.so'' fresh_loader)) = handles fresh_loader
   \<and> refreshes (fst (UtilityPlugin no_factory ''util.so'' fresh_loader)) = refreshes fresh_loader"
proof -
  have run: "UtilityPlugin no_factory ''util.so'' fresh_loader =
     (\<lparr>handles = [],
       dl_calls = [Dlopen ''util.so'', Dlsym ''util.so'' ''GetDescription'',
                   Dlsym ''util.so'' ''CreateInstance'', Dlclose ''util.so''],
       refreshes = 0\<rparr>,
      Inl (RuntimeError (CouldNotResolveSymbol ''CreateInstance'')))"
    by (simp add: UtilityPlugin_def dlopen_def getSymbol_def dlclose_def no_factory_def
        fresh_loader_def)
  from UtilityPlugin_rollback [OF run] show ?thesis
    using run by simp
qed

subsection \<open>Host strings\<close>

text \<open>
  C3.  A host string without \<^verbatim>\<open>@\<close> is split at colons.  One token gives a direct
  connection to that host at the default port.  Two tokens give the host and the
  port that \<^verbatim>\<open>strtol\<close> reads from the second token, when \<^verbatim>\<open>strtol\<close> consumes
  all of it (the other case is C5); for a token of digits below \<open>2^31\<close> this is its
  decimal value.  No token, or more than two, is the error "Invalid host
  specification".
\<close>

theorem parse_host_direct:
  assumes "CHR ''@'' \<notin> set hostName"
  shows "(tokenize hostName '':'' = [h] \<longrightarrow>
            parse_host default_port hostName = Inr (Direct h default_port))
       \<and> (tokenize hostName '':'' = [h, p] \<and> snd (strtol p) = [] \<longrightarrow>
            parse_host default_port hostName = Inr (Direct h (int_of_long (fst (strtol p)))))
       \<and> (tokenize hostName '':'' = [h, p] \<and> p \<noteq> [] \<and> (\<forall>c\<in>set p. isdigit c)
            \<and> decimal p < 2 ^ 31 \<longrightarrow>
            parse_host default_port hostName = Inr (Direct h (decimal p)))
       \<and> (length (tokenize hostName '':'') = 0 \<or> 2 < length (tokenize hostName '':'') \<longrightarrow>
            parse_host default_port hostName = Inl (RuntimeError (InvalidHostSpecification hostName)))"
proof (intro conjI impI)
  assume "tokenize hostName '':'' = [h]"
  then show "parse_host default_port hostName = Inr (Direct h default_port)"
    using assms by (simp add: parse_host_def parse_direct_def)
next
  assume "tokenize hostName '':'' = [h, p] \<and> snd (strtol p) = []"
  then show "parse_host default_port hostName = Inr (Direct h (int_of_long (fst (strtol p))))"
    using assms by (cases "strtol p") (simp add: parse_host_def parse_direct_def)
next
  assume a: "tokenize hostName '':'' = [h, p] \<and> p \<noteq> [] \<and> (\<forall>c\<in>set p. isdigit c)
    \<and> decimal p < 2 ^ 31"
  then have s: "strtol p = (clamp_long (decimal p), [])" by (simp add: strtol_digits)
  have "0 \<le> decimal p" using a by (simp add: decimal_nonneg)
  then have "clamp_long (decimal p) = decimal p"
    using a by (simp add: clamp_long_def LONG_MIN_def LONG_MAX_def)
  moreover have "int_of_long (decimal p) = decimal p"
    using a \<open>0 \<le> decimal p\<close> by (simp add: int_of_long_small)
  ultimately show "parse_host default_port hostName = Inr (Direct h (decimal p))"
    using assms a s by (simp add: parse_host_def parse_direct_def)
next
  assume "length (tokenize hostName '':'') = 0 \<or> 2 < length (tokenize hostName '':'')"
  then show "parse_host default_port hostName = Inl (RuntimeError (InvalidHostSpecification hostName))"
    using assms by (auto simp: parse_host_def parse_direct_def)
qed

theorem parse_host_direct_witness:
  "CHR ''@'' \<notin> set ''render1:7554''
   \<and> tokenize ''render1:7554'' '':'' = [''render1'', ''7554'']
   \<and> parse_host 0 ''render1:7554'' = Inr (Direct ''render1'' 7554)"
proof -
  have h: "CHR ''@'' \<notin> set ''render1:7554''" by simp
  have t: "tokenize ''render1:7554'' '':'' = [''render1'', ''7554'']"
    by (simp add: tokenize_def)
  have d: "(\<forall>c\<in>set ''7554''. isdigit c) \<and> decimal ''7554'' = 7554"
    by (simp add: isdigit_def decimal_def digit_value_def)
  from parse_host_direct [OF h, of "''render1''" 0 "''7554''"] show ?thesis
    using h t d by simp
qed

text \<open>
  C4.  A host string with \<^verbatim>\<open>@\<close> is split at \<^verbatim>\<open>@\<close> and colons together.  Two tokens
  give user and host with the path \<^verbatim>\<open>~/mitsuba\<close>, three tokens give user, host and
  path, any other number is the error "Invalid host specification"; the result is
  never a direct connection.
\<close>

theorem parse_host_tunnel:
  assumes "CHR ''@'' \<in> set hostName"
  shows "(tokenize hostName ''@:'' = [u, h] \<longrightarrow>
            parse_host default_port hostName = Inr (Tunnel u h ''~/mitsuba''))
       \<and> (tokenize hostName ''@:'' = [u, h, path] \<longrightarrow>
            parse_host default_port hostName = Inr (Tunnel u h path))
       \<and> (length (tokenize hostName ''@:'') < 2 \<or> 3 < length (tokenize hostName ''@:'') \<longrightarrow>
            parse_host default_port hostName = Inl (RuntimeError (InvalidHostSpecification hostName)))
       \<and> parse_host default_port hostName \<noteq> Inr (Direct h' port')"
  using assms by (auto simp: parse_host_def parse_tunnel_def Let_def)

theorem parse_host_tunnel_witness:
  "CHR ''@'' \<in> set ''wenzel@render2:/opt/mitsuba''
   \<and> tokenize ''wenzel@render2:/opt/mitsuba'' ''@:'' = [''wenzel'', ''render2'', ''/opt/mitsuba'']
   \<and> parse_host 7554 ''wenzel@render2:/opt/mitsuba'' =
        Inr (Tunnel ''wenzel'' ''render2'' ''/opt/mitsuba'')"
proof -
  have h: "CHR ''@'' \<in> set ''wenzel@render2:/opt/mitsuba''" by simp
  have t: "tokenize ''wenzel@render2:/opt/mitsuba'' ''@:'' =
      [''wenzel'', ''render2'', ''/opt/mitsuba'']"
    by (simp add: tokenize_def)
  from parse_host_tunnel [OF h, of "''wenzel''" "''render2''" 7554 "''/opt/mitsuba''"]
  show ?thesis using h t by simp
qed

text \<open>
  C5, as stated, asks for an error of its own kind when the port is not a number.
  The file has one format string for both failures (lines 213 and 217), so the
  error for a bad port is the one for a wrong number of tokens.
\<close>

theorem invalid_port_same_error:
  "parse_host 7554 ''h:x'' = Inl (RuntimeError (InvalidHostSpecification ''h:x''))
   \<and> parse_host 7554 ''a:b:c'' = Inl (RuntimeError (InvalidHostSpecification ''a:b:c''))"
  by (simp add: parse_host_def parse_direct_def tokenize_def strtol_def isspace_def isdigit_def)

text \<open>
  C5, amended.  For a host string without \<^verbatim>\<open>@\<close> that has two tokens, when
  \<^verbatim>\<open>strtol\<close> leaves characters of the second token unconsumed, parsing fails with
  the error "Invalid host specification" for the whole host string, the same error
  as for a wrong number of tokens.
\<close>

theorem invalid_port_error:
  assumes "CHR ''@'' \<notin> set hostName"
    and "tokenize hostName '':'' = [h, p]"
    and "snd (strtol p) \<noteq> []"
  shows "parse_host default_port hostName = Inl (RuntimeError (InvalidHostSpecification hostName))"
  using assms by (cases "strtol p") (simp add: parse_host_def parse_direct_def)

theorem invalid_port_error_witness:
  "CHR ''@'' \<notin> set ''render1:80x''
   \<and> tokenize ''render1:80x'' '':'' = [''render1'', ''80x'']
   \<and> strtol ''80x'' = (80, ''x'')
   \<and> parse_host 7554 ''render1:80x'' =
        Inl (RuntimeError (InvalidHostSpecification ''render1:80x''))"
proof -
  have h: "CHR ''@'' \<notin> set ''render1:80x''" by simp
  have t: "tokenize ''render1:80x'' '':'' = [''render1'', ''80x'']"
    by (simp add: tokenize_def)
  have s: "strtol ''80x'' = (80, ''x'')"
    by (simp add: strtol_def isspace_def isdigit_def decimal_def digit_value_def clamp_long_def
        LONG_MIN_def LONG_MAX_def)
  have r: "snd (strtol ''80x'') \<noteq> []" by (simp add: s)
  from invalid_port_error [OF h t r] show ?thesis
    using h t s by simp
qed

subsection \<open>The hint about passwordless authentication\<close>

text \<open>
  C6, as stated, has the hint also when the stream of a tunnel cannot be opened.
  The \<^verbatim>\<open>SSHStream\<close> is constructed in line 230, before the \<^verbatim>\<open>try\<close> block of line
  232 begins: its exception passes the handler by and no hint is logged.
\<close>

theorem tunnel_open_failure_no_hint:
  "snd (connect_host ssh_refused 0 ''wenzel@render2'' idle_world) = Some (RuntimeError (Foreign ''ssh''))
   \<and> printed (fst (connect_host ssh_refused 0 ''wenzel@render2'' idle_world)) = []"
  by (simp add: connect_host_def parse_host_def parse_tunnel_def tokenize_def new_stream_def
      stream_of_def ssh_refused_def reliable_def idle_world_def)

text \<open>
  C6, amended.  A well-formed host string is a tunnel exactly when it contains
  \<^verbatim>\<open>@\<close>.  For a tunnel, when the stream is opened and the construction or
  registration of the remote worker throws a \<^verbatim>\<open>std::runtime_error\<close>, the hint is
  logged and the same error is thrown again.  When the stream constructor throws, of
  either kind of host, the exception leaves the round with nothing logged.  For a
  direct host no round logs anything.
\<close>

theorem hint_on_registration_failure:
  assumes "parse_host (MTS_DEFAULT_PORT env) hostName = Inr d"
  shows "((CHR ''@'' \<in> set hostName) = (\<exists>user host path. d = Tunnel user host path))
       \<and> (CHR ''@'' \<in> set hostName \<and> stream_fails env (stream_of d) = None
            \<and> registration env (RemoteWorker (net i) (stream_of d)) = Some (RuntimeError m) \<longrightarrow>
          connect_host env i hostName w =
            (w\<lparr>calls := calls w @ [NewStream (stream_of d),
                                    RegisterWorker (RemoteWorker (net i) (stream_of d))],
               printed := printed w @ [Warn passwordless_hint]\<rparr>,
             Some (RuntimeError m)))
       \<and> (stream_fails env (stream_of d) = Some e \<longrightarrow>
          connect_host env i hostName w = (w\<lparr>calls := calls w @ [NewStream (stream_of d)]\<rparr>, Some e))
       \<and> (CHR ''@'' \<notin> set hostName \<longrightarrow>
          printed (fst (connect_host env i hostName w)) = printed w)"
proof (intro conjI impI)
  show "(CHR ''@'' \<in> set hostName) = (\<exists>user host path. d = Tunnel user host path)"
    by (rule parse_host_kind [OF assms])
next
  assume "CHR ''@'' \<in> set hostName \<and> stream_fails env (stream_of d) = None
            \<and> registration env (RemoteWorker (net i) (stream_of d)) = Some (RuntimeError m)"
  then show "connect_host env i hostName w =
            (w\<lparr>calls := calls w @ [NewStream (stream_of d),
                                    RegisterWorker (RemoteWorker (net i) (stream_of d))],
               printed := printed w @ [Warn passwordless_hint]\<rparr>,
             Some (RuntimeError m))"
    using assms by (simp add: connect_host_def new_stream_def registerWorker_def)
next
  assume "stream_fails env (stream_of d) = Some e"
  then show "connect_host env i hostName w = (w\<lparr>calls := calls w @ [NewStream (stream_of d)]\<rparr>, Some e)"
    using assms by (simp add: connect_host_def new_stream_def)
next
  assume "CHR ''@'' \<notin> set hostName"
  then show "printed (fst (connect_host env i hostName w)) = printed w"
    using assms
    by (auto simp: connect_host_def new_stream_def registerWorker_def Let_def
        split: option.splits exn.splits)
qed

theorem hint_on_registration_failure_witness:
  "parse_host (MTS_DEFAULT_PORT handshake_refused) ''wenzel@render2'' =
     Inr (Tunnel ''wenzel'' ''render2'' ''~/mitsuba'')
   \<and> connect_host handshake_refused 0 ''wenzel@render2'' idle_world =
     (idle_world\<lparr>calls := [NewStream (stream_of (Tunnel ''wenzel'' ''render2'' ''~/mitsuba'')),
                            RegisterWorker (RemoteWorker (net 0)
                              (stream_of (Tunnel ''wenzel'' ''render2'' ''~/mitsuba'')))],
                  printed := [Warn passwordless_hint]\<rparr>,
      Some (RuntimeError (Foreign ''handshake'')))"
proof -
  have p: "parse_host (MTS_DEFAULT_PORT handshake_refused) ''wenzel@render2'' =
     Inr (Tunnel ''wenzel'' ''render2'' ''~/mitsuba'')"
    by (simp add: parse_host_def parse_tunnel_def tokenize_def)
  have s: "stream_fails handshake_refused (stream_of (Tunnel ''wenzel'' ''render2'' ''~/mitsuba'')) = None"
    by (simp add: handshake_refused_def reliable_def)
  have r: "registration handshake_refused
      (RemoteWorker (net 0) (stream_of (Tunnel ''wenzel'' ''render2'' ''~/mitsuba''))) =
      Some (RuntimeError (Foreign ''handshake''))"
    by (simp add: handshake_refused_def reliable_def)
  from hint_on_registration_failure [OF p, of 0 "Foreign ''handshake''" idle_world]
  show ?thesis
    using p s r by (simp add: idle_world_def)
qed

subsection \<open>The exit status\<close>

text \<open>
  C7.  The claim has the exit status \<open>-1\<close> when an exception reaches the handlers of
  \<^verbatim>\<open>ubi_main\<close>.  With the arguments \<^verbatim>\<open>-p abc gaussian\<close> the processor count does not
  parse, the exception is caught in line 259, and \<^verbatim>\<open>main\<close> returns 0.  Without a
  utility name it returns \<open>-1\<close> (line 252), after the scheduler has been started.
\<close>

theorem exception_exit_status:
  "main reliable ''node'' \<lparr>argc = 4, options = [(CHR ''p'', ''abc'')], operands = [''gaussian'']\<rparr>
     idle_world =
     (\<lparr>workers = [], started = False,
       calls = [AddPathFromFile ''/usr/bin/mtsutil'', AddPath ''/usr/share/mitsuba''],
       printed = [Critical (RuntimeError CouldNotParseProcessorCount)]\<rparr>, Exit 0)
   \<and> main reliable ''node'' \<lparr>argc = 2, options = [], operands = []\<rparr> idle_world =
     (\<lparr>workers = [LocalWorker (wrk 0), LocalWorker (wrk 1)], started = True,
       calls = [AddPathFromFile ''/usr/bin/mtsutil'', AddPath ''/usr/share/mitsuba'',
                RegisterWorker (LocalWorker (wrk 0)), RegisterWorker (LocalWorker (wrk 1)),
                SchedulerStart],
       printed = [Stderr ''A utility name must be supplied!'']\<rparr>, Exit (- 1))"
proof -
  define w0 where "w0 = resolver_setup reliable idle_world"
  have w0: "w0 = \<lparr>workers = [], started = False,
       calls = [AddPathFromFile ''/usr/bin/mtsutil'', AddPath ''/usr/share/mitsuba''],
       printed = []\<rparr>"
    by (simp add: w0_def resolver_setup_def reliable_def idle_world_def)
  have s: "strtol ''abc'' = (0, ''abc'')"
    by (simp add: strtol_def isspace_def isdigit_def)
  have up: "[0..1] = [0, 1 :: int]" by (simp add: upto.simps)
  have locals: "\<forall>k. 0 \<le> k \<and> k < 2 \<longrightarrow> registration reliable (LocalWorker (wrk k)) = None"
    by (simp add: reliable_def)
  have l: "register_local reliable 0 2 w0 =
      (w0\<lparr>workers := workers w0 @ map (\<lambda>k. LocalWorker (wrk k)) [0..2 - 1],
         calls := calls w0 @ map (\<lambda>k. RegisterWorker (LocalWorker (wrk k))) [0..2 - 1]\<rparr>, None)"
    by (rule register_local_ok) (use locals in simp)
  have x: "\<not> xerces_fails reliable" "getProcessorCount reliable = 2"
    by (simp_all add: reliable_def)
  have ua: "ubi_main reliable ''node''
      \<lparr>argc = 4, options = [(CHR ''p'', ''abc'')], operands = [''gaussian'']\<rparr> w0 =
      (w0\<lparr>printed := printed w0 @ [Critical (RuntimeError CouldNotParseProcessorCount)]\<rparr>, 0)"
    by (simp add: ubi_main_def handle_option_def s caught_def)
  have ub: "ubi_main reliable ''node'' \<lparr>argc = 2, options = [], operands = []\<rparr> w0 =
      (scheduler_start
         (w0\<lparr>workers := workers w0 @ map (\<lambda>k. LocalWorker (wrk k)) [0..2 - 1],
            calls := calls w0 @ map (\<lambda>k. RegisterWorker (LocalWorker (wrk k))) [0..2 - 1]\<rparr>)
       \<lparr>printed := printed w0 @ [Stderr ''A utility name must be supplied!'']\<rparr>, - 1)"
    by (simp add: ubi_main_def default_settings_def assemble_def tokenize_def x l
        scheduler_start_def)
  have a: "main reliable ''node'' \<lparr>argc = 4, options = [(CHR ''p'', ''abc'')], operands = [''gaussian'']\<rparr>
     idle_world =
     (\<lparr>workers = [], started = False,
       calls = [AddPathFromFile ''/usr/bin/mtsutil'', AddPath ''/usr/share/mitsuba''],
       printed = [Critical (RuntimeError CouldNotParseProcessorCount)]\<rparr>, Exit 0)"
    unfolding main_def Let_def w0_def [symmetric] using x(1) by (simp add: ua) (simp add: w0)
  have b: "main reliable ''node'' \<lparr>argc = 2, options = [], operands = []\<rparr> idle_world =
     (\<lparr>workers = [LocalWorker (wrk 0), LocalWorker (wrk 1)], started = True,
       calls = [AddPathFromFile ''/usr/bin/mtsutil'', AddPath ''/usr/share/mitsuba'',
                RegisterWorker (LocalWorker (wrk 0)), RegisterWorker (LocalWorker (wrk 1)),
                SchedulerStart],
       printed = [Stderr ''A utility name must be supplied!'']\<rparr>, Exit (- 1))"
    unfolding main_def Let_def w0_def [symmetric] using x(1)
    by (simp add: ub) (simp add: w0 scheduler_start_def up)
  show ?thesis using a b by simp
qed

subsection \<open>Local workers, then remote workers\<close>

text \<open>
  C8.  When no registration and no stream fails, the assembly registers the local
  workers \<^verbatim>\<open>wrk0 .. wrk{n-1}\<close> in this order, then for each host in its position
  \<open>j\<close> opens the stream and registers \<^verbatim>\<open>net{j}\<close>, and starts the scheduler last.
  There are \<open>n\<close> local workers for \<open>n \<ge> 0\<close>; for \<open>n \<le> 0\<close> there is none, and the
  first loop returns without an error whatever the collaborators do.  The names are
  the letters \<^verbatim>\<open>wrk\<close> or \<^verbatim>\<open>net\<close> followed by the index in decimal: digits only, of
  the value of the index, without a leading zero.  So different indices give
  different names, and the two counters never give the same name.
\<close>

theorem assemble_locals_then_remotes:
  assumes locals: "\<forall>k. 0 \<le> k \<and> k < n \<longrightarrow> registration env (LocalWorker (wrk k)) = None"
    and ds: "length ds = length (tokenize hostText '';'')"
    and remotes: "\<forall>j<length (tokenize hostText '';'').
           parse_host (MTS_DEFAULT_PORT env) (tokenize hostText '';'' ! j) = Inr (ds ! j)
           \<and> stream_fails env (stream_of (ds ! j)) = None
           \<and> registration env (RemoteWorker (net j) (stream_of (ds ! j))) = None"
  shows "assemble env n hostText w =
           (w\<lparr>workers := workers w
                @ map (\<lambda>k. LocalWorker (''wrk'' @ show_nat (nat k))) [0..n - 1]
                @ map (\<lambda>j. RemoteWorker (''net'' @ show_nat j) (stream_of (ds ! j))) [0..<length ds],
              started := True,
              calls := calls w
                @ map (\<lambda>k. RegisterWorker (LocalWorker (''wrk'' @ show_nat (nat k)))) [0..n - 1]
                @ concat (map (\<lambda>j. [NewStream (stream_of (ds ! j)),
                                     RegisterWorker
                                       (RemoteWorker (''net'' @ show_nat j) (stream_of (ds ! j)))])
                            [0..<length ds])
                @ [SchedulerStart]\<rparr>,
            None)
         \<and> length [0..n - 1] = nat n
         \<and> (n \<le> 0 \<longrightarrow> [0..n - 1] = [] \<and> register_local env 0 n w = (w, None))
         \<and> (0 \<le> a \<longrightarrow> wrk a = ''wrk'' @ show_nat (nat a))
         \<and> net b = ''net'' @ show_nat b
         \<and> (\<forall>c\<in>set (show_nat m). isdigit c)
         \<and> decimal (show_nat m) = int m
         \<and> show_nat 0 = ''0''
         \<and> (m \<noteq> 0 \<longrightarrow> hd (show_nat m) \<noteq> CHR ''0'')
         \<and> (wrk a = wrk a' \<longrightarrow> a = a')
         \<and> (net b = net b' \<longrightarrow> b = b')
         \<and> wrk a \<noteq> net b"
proof (intro conjI impI)
  have local: "register_local env 0 n w =
      (w\<lparr>workers := workers w @ map (\<lambda>k. LocalWorker (wrk k)) [0..n - 1],
         calls := calls w @ map (\<lambda>k. RegisterWorker (LocalWorker (wrk k))) [0..n - 1]\<rparr>, None)"
    by (rule register_local_ok) (use locals in simp)
  have remotes': "\<forall>j<length (tokenize hostText '';'').
           parse_host (MTS_DEFAULT_PORT env) (tokenize hostText '';'' ! j) = Inr (ds ! j)
           \<and> stream_fails env (stream_of (ds ! j)) = None
           \<and> registration env (RemoteWorker (net (0 + j)) (stream_of (ds ! j))) = None"
    using remotes by simp
  have l1: "map (\<lambda>k. LocalWorker (wrk k)) [0..n - 1] =
      map (\<lambda>k. LocalWorker (''wrk'' @ show_nat (nat k))) [0..n - 1]"
    by (rule map_cong) (simp_all add: wrk_def show_int_def)
  have l2: "map (\<lambda>k. RegisterWorker (LocalWorker (wrk k))) [0..n - 1] =
      map (\<lambda>k. RegisterWorker (LocalWorker (''wrk'' @ show_nat (nat k)))) [0..n - 1]"
    by (rule map_cong) (simp_all add: wrk_def show_int_def)
  have "assemble env n hostText w =
           (w\<lparr>workers := workers w @ map (\<lambda>k. LocalWorker (wrk k)) [0..n - 1]
                @ map (\<lambda>j. RemoteWorker (net j) (stream_of (ds ! j))) [0..<length ds],
              started := True,
              calls := calls w @ map (\<lambda>k. RegisterWorker (LocalWorker (wrk k))) [0..n - 1]
                @ concat (map (\<lambda>j. [NewStream (stream_of (ds ! j)),
                                     RegisterWorker (RemoteWorker (net j) (stream_of (ds ! j)))])
                            [0..<length ds])
                @ [SchedulerStart]\<rparr>,
            None)"
    by (simp add: assemble_def local connect_hosts_ok [OF ds remotes'] scheduler_start_def)
  then show "assemble env n hostText w =
           (w\<lparr>workers := workers w
                @ map (\<lambda>k. LocalWorker (''wrk'' @ show_nat (nat k))) [0..n - 1]
                @ map (\<lambda>j. RemoteWorker (''net'' @ show_nat j) (stream_of (ds ! j))) [0..<length ds],
              started := True,
              calls := calls w
                @ map (\<lambda>k. RegisterWorker (LocalWorker (''wrk'' @ show_nat (nat k)))) [0..n - 1]
                @ concat (map (\<lambda>j. [NewStream (stream_of (ds ! j)),
                                     RegisterWorker
                                       (RemoteWorker (''net'' @ show_nat j) (stream_of (ds ! j)))])
                            [0..<length ds])
                @ [SchedulerStart]\<rparr>,
            None)"
    unfolding l1 l2 by (simp add: net_def)
next
  show "length [0..n - 1] = nat n" by simp
next
  assume "n \<le> 0"
  then show "[0..n - 1] = []" by simp
next
  assume "n \<le> 0"
  then show "register_local env 0 n w = (w, None)" by (rule register_local_none)
next
  assume "0 \<le> a"
  then show "wrk a = ''wrk'' @ show_nat (nat a)" by (simp add: wrk_def show_int_def)
next
  show "net b = ''net'' @ show_nat b" by (simp add: net_def)
next
  show "\<forall>c\<in>set (show_nat m). isdigit c" by (rule show_nat_digits)
next
  show "decimal (show_nat m) = int m" by (rule decimal_show_nat)
next
  show "show_nat 0 = ''0''" by (rule show_nat_zero)
next
  assume "m \<noteq> 0"
  then show "hd (show_nat m) \<noteq> CHR ''0''" by (rule show_nat_no_leading_zero)
next
  assume "wrk a = wrk a'"
  then show "a = a'" by (rule wrk_inj)
next
  assume "net b = net b'"
  then show "b = b'" by (rule net_inj)
next
  show "wrk a \<noteq> net b" by (rule wrk_not_net)
qed

theorem assemble_locals_then_remotes_witness:
  "assemble reliable 2 '';a;b'' idle_world =
     (\<lparr>workers = [LocalWorker ''wrk0'', LocalWorker ''wrk1'',
                  RemoteWorker ''net0'' (SocketStream ''a'' 7554),
                  RemoteWorker ''net1'' (SocketStream ''b'' 7554)],
       started = True,
       calls = [RegisterWorker (LocalWorker ''wrk0''), RegisterWorker (LocalWorker ''wrk1''),
                NewStream (SocketStream ''a'' 7554),
                RegisterWorker (RemoteWorker ''net0'' (SocketStream ''a'' 7554)),
                NewStream (SocketStream ''b'' 7554),
                RegisterWorker (RemoteWorker ''net1'' (SocketStream ''b'' 7554)),
                SchedulerStart],
       printed = []\<rparr>,
      None)
   \<and> (- 3 :: int) \<le> 0
   \<and> register_local reliable 0 (- 3) idle_world = (idle_world, None)
   \<and> wrk 12 = ''wrk12'' \<and> net 305 = ''net305'' \<and> decimal (show_nat 305) = 305"
proof -
  have t: "tokenize '';a;b'' '';'' = [''a'', ''b'']"
    by (simp add: tokenize_def)
  have p: "parse_host 7554 ''a'' = Inr (Direct ''a'' 7554)"
    "parse_host 7554 ''b'' = Inr (Direct ''b'' 7554)"
    by (simp_all add: parse_host_def parse_direct_def tokenize_def)
  have locals: "\<forall>k. 0 \<le> k \<and> k < 2 \<longrightarrow> registration reliable (LocalWorker (wrk k)) = None"
    by (simp add: reliable_def)
  have locals': "\<forall>k. 0 \<le> k \<and> k < - 3 \<longrightarrow> registration reliable (LocalWorker (wrk k)) = None"
    by (simp add: reliable_def)
  have ds: "length [Direct ''a'' 7554, Direct ''b'' 7554] = length (tokenize '';a;b'' '';'')"
    by (simp add: t)
  have remotes: "\<forall>j<length (tokenize '';a;b'' '';'').
      parse_host (MTS_DEFAULT_PORT reliable) (tokenize '';a;b'' '';'' ! j)
        = Inr ([Direct ''a'' 7554, Direct ''b'' 7554] ! j)
      \<and> stream_fails reliable (stream_of ([Direct ''a'' 7554, Direct ''b'' 7554] ! j)) = None
      \<and> registration reliable
          (RemoteWorker (net j) (stream_of ([Direct ''a'' 7554, Direct ''b'' 7554] ! j))) = None"
    by (simp add: t p reliable_def less_Suc_eq all_conj_distrib)
  have up: "[0..1] = [0, 1 :: int]" by (simp add: upto.simps)
  have digits: "show_nat 0 = ''0''" "show_nat (Suc 0) = ''1''" "show_nat 12 = ''12''"
    "show_nat 305 = ''305''"
    by code_simp+
  note run = assemble_locals_then_remotes [OF locals ds remotes, of idle_world 12 305 305]
  note none = assemble_locals_then_remotes [OF locals' ds remotes, of idle_world]
  from run have "assemble reliable 2 '';a;b'' idle_world =
     (\<lparr>workers = [LocalWorker ''wrk0'', LocalWorker ''wrk1'',
                  RemoteWorker ''net0'' (SocketStream ''a'' 7554),
                  RemoteWorker ''net1'' (SocketStream ''b'' 7554)],
       started = True,
       calls = [RegisterWorker (LocalWorker ''wrk0''), RegisterWorker (LocalWorker ''wrk1''),
                NewStream (SocketStream ''a'' 7554),
                RegisterWorker (RemoteWorker ''net0'' (SocketStream ''a'' 7554)),
                NewStream (SocketStream ''b'' 7554),
                RegisterWorker (RemoteWorker ''net1'' (SocketStream ''b'' 7554)),
                SchedulerStart],
       printed = []\<rparr>,
      None)"
    by (simp add: up idle_world_def stream_of_def upt_rec digits)
  moreover from none have "register_local reliable 0 (- 3) idle_world = (idle_world, None)"
    by simp
  moreover from run have "wrk 12 = ''wrk12'' \<and> net 305 = ''net305'' \<and> decimal (show_nat 305) = 305"
    by (simp add: digits)
  ultimately show ?thesis by simp
qed

subsection \<open>The order of the hosts\<close>

text \<open>
  C9, as stated, puts the hosts of every \<^verbatim>\<open>-c\<close> option before the hosts of every
  \<^verbatim>\<open>-s\<close> option.  The options are handled in the order of the command line: with
  \<^verbatim>\<open>-s servers -c h\<close> the hosts of the file come first.
\<close>

theorem file_hosts_before_command_line_hosts:
  "snd (parse_options reliable [(CHR ''s'', ''servers''), (CHR ''c'', ''h'')]
          (default_settings reliable ''node'') idle_world) =
     Next \<lparr>nprocs = 2, nodeName = ''node'', networkHosts = '';render1;render2;h'',
           quietMode = False, logLevel = EInfo\<rparr>
   \<and> tokenize '';render1;render2;h'' '';'' = [''render1'', ''render2'', ''h'']"
  by (simp add: handle_option_def default_settings_def reliable_def unlines_def isspace_def
      tokenize_def)

text \<open>
  C9, amended.  The hosts are those of the options in the order of the command
  line, the hosts of one option in their own order; the empty text has no hosts.  Of
  a host file whose lines contain no white space, the empty lines and the lines that
  begin with \<^verbatim>\<open>#\<close> are left out and the other lines follow in the order of the file.
\<close>

theorem hosts_in_option_order:
  assumes run: "parse_options env opts s w = (w', Next s')"
    and files: "\<forall>f. (CHR ''s'', f) \<in> set opts \<longrightarrow>
             host_file env f = Some (unlines (file_lines f))
             \<and> (\<forall>l\<in>set (file_lines f). \<forall>c\<in>set l. \<not> isspace c)"
  shows "tokenize (networkHosts s') '';'' =
           tokenize (networkHosts s) '';'' @ concat (map (listed_hosts file_lines) opts)
         \<and> tokenize [] '';'' = []"
proof -
  have "concat (map (\<lambda>h. tokenize h '';'') (concat (map (appended_entries env) opts))) =
        concat (map (listed_hosts file_lines) opts)"
    using files
  proof (induction opts)
    case Nil
    then show ?case by simp
  next
    case (Cons opt opts)
    obtain optchar optarg where opt: "opt = (optchar, optarg)" by (cases opt)
    have "concat (map (\<lambda>h. tokenize h '';'') (appended_entries env (optchar, optarg))) =
           listed_hosts file_lines (optchar, optarg)"
      by (rule entries_listed) (use Cons.prems opt in auto)
    then show ?case using Cons opt by simp
  qed
  then show ?thesis
    by (simp add: parse_options_hosts [OF run] tokenize_joined tokenize_Nil)
qed

theorem hosts_in_option_order_witness:
  "parse_options reliable [(CHR ''s'', ''servers''), (CHR ''c'', ''h'')]
          (default_settings reliable ''node'') idle_world =
     (idle_world, Next \<lparr>nprocs = 2, nodeName = ''node'', networkHosts = '';render1;render2;h'',
           quietMode = False, logLevel = EInfo\<rparr>)
   \<and> tokenize '';render1;render2;h'' '';'' =
       concat (map (listed_hosts (\<lambda>f. [''#farm'', [], ''render1'', ''render2'']))
                 [(CHR ''s'', ''servers''), (CHR ''c'', ''h'')])
   \<and> concat (map (listed_hosts (\<lambda>f. [''#farm'', [], ''render1'', ''render2'']))
                 [(CHR ''s'', ''servers''), (CHR ''c'', ''h'')]) = [''render1'', ''render2'', ''h'']"
proof -
  have run: "parse_options reliable [(CHR ''s'', ''servers''), (CHR ''c'', ''h'')]
          (default_settings reliable ''node'') idle_world =
     (idle_world, Next \<lparr>nprocs = 2, nodeName = ''node'', networkHosts = '';render1;render2;h'',
           quietMode = False, logLevel = EInfo\<rparr>)"
    by (simp add: handle_option_def default_settings_def reliable_def unlines_def isspace_def)
  have files: "\<forall>f. (CHR ''s'', f) \<in> set [(CHR ''s'', ''servers''), (CHR ''c'', ''h'')] \<longrightarrow>
      host_file reliable f = Some (unlines ((\<lambda>f. [''#farm'', [], ''render1'', ''render2'']) f))
      \<and> (\<forall>l\<in>set ((\<lambda>f. [''#farm'', [], ''render1'', ''render2'']) f). \<forall>c\<in>set l. \<not> isspace c)"
    by (simp add: reliable_def isspace_def)
  have l: "concat (map (listed_hosts (\<lambda>f. [''#farm'', [], ''render1'', ''render2'']))
                 [(CHR ''s'', ''servers''), (CHR ''c'', ''h'')]) = [''render1'', ''render2'', ''h'']"
    by (simp add: listed_hosts_def tokenize_def)
  from hosts_in_option_order [OF run files] show ?thesis
    using run l by (simp add: default_settings_def tokenize_Nil)
qed

subsection \<open>Empty fragments\<close>

text \<open>
  C10.  No token is empty, and a semicolon between two texts, in front of a text or
  behind it adds no token.  The options append every entry behind a semicolon, so
  the text they build is empty or begins with a semicolon, and its tokens are the
  tokens of the entries in order; entries that are not empty and contain no
  semicolon are the tokens themselves.
\<close>

theorem empty_fragments_dropped:
  "[] \<notin> set (tokenize str '';'')
   \<and> tokenize (a @ '';'' @ b) '';'' = tokenize a '';'' @ tokenize b '';''
   \<and> tokenize ('';'' @ str) '';'' = tokenize str '';''
   \<and> tokenize (str @ '';'') '';'' = tokenize str '';''
   \<and> (parse_options env opts (default_settings env hostName) w = (w', Next s') \<longrightarrow>
        networkHosts s' = concat (map ((#) CHR '';'') (concat (map (appended_entries env) opts)))
        \<and> (networkHosts s' \<noteq> [] \<longrightarrow> hd (networkHosts s') = CHR '';'')
        \<and> tokenize (networkHosts s') '';'' =
            concat (map (\<lambda>h. tokenize h '';'') (concat (map (appended_entries env) opts))))
   \<and> ((\<forall>h\<in>set hs. h \<noteq> [] \<and> CHR '';'' \<notin> set h) \<longrightarrow>
        tokenize (concat (map ((#) CHR '';'') hs)) '';'' = hs)"
proof (intro conjI impI)
  show "[] \<notin> set (tokenize str '';'')"
    by (simp add: tokenize_def split_runs_nonempty)
next
  have "tokenize (a @ CHR '';'' # b) '';'' = tokenize a '';'' @ tokenize b '';''"
    by (rule tokenize_append_delim) simp
  then show "tokenize (a @ '';'' @ b) '';'' = tokenize a '';'' @ tokenize b '';''" by simp
next
  show "tokenize ('';'' @ str) '';'' = tokenize str '';''"
    using tokenize_append_delim [of "CHR '';''" "'';''" "[]" str] by (simp add: tokenize_Nil)
next
  show "tokenize (str @ '';'') '';'' = tokenize str '';''"
    using tokenize_append_delim [of "CHR '';''" "'';''" str "[]"] by (simp add: tokenize_Nil)
next
  assume run: "parse_options env opts (default_settings env hostName) w = (w', Next s')"
  define es where "es = concat (map (appended_entries env) opts)"
  have nh: "networkHosts s' = concat (map ((#) CHR '';'') es)"
    using parse_options_hosts [OF run] by (simp add: default_settings_def es_def)
  show "networkHosts s' = concat (map ((#) CHR '';'') (concat (map (appended_entries env) opts)))"
    using nh by (simp add: es_def)
  show "hd (networkHosts s') = CHR '';''" if "networkHosts s' \<noteq> []"
    using that unfolding nh by (cases es) simp_all
  show "tokenize (networkHosts s') '';'' =
            concat (map (\<lambda>h. tokenize h '';'') (concat (map (appended_entries env) opts)))"
    using tokenize_joined [of "[]" es] by (simp add: nh tokenize_Nil es_def)
next
  assume plain: "\<forall>h\<in>set hs. h \<noteq> [] \<and> CHR '';'' \<notin> set h"
  have "concat (map (\<lambda>h. tokenize h '';'') hs) = hs"
    using plain by (induction hs) (simp_all add: tokenize_plain)
  then show "tokenize (concat (map ((#) CHR '';'') hs)) '';'' = hs"
    using tokenize_joined [of "[]" hs] by (simp add: tokenize_Nil)
qed

theorem empty_fragments_dropped_witness:
  "parse_options reliable [(CHR ''c'', ''a;;b;''), (CHR ''s'', ''servers'')]
          (default_settings reliable ''node'') idle_world =
     (idle_world, Next \<lparr>nprocs = 2, nodeName = ''node'', networkHosts = '';a;;b;;render1;render2'',
           quietMode = False, logLevel = EInfo\<rparr>)
   \<and> tokenize '';a;;b;;render1;render2'' '';'' = [''a'', ''b'', ''render1'', ''render2'']
   \<and> tokenize (concat (map ((#) CHR '';'') [''a'', ''b''])) '';'' = [''a'', ''b'']"
proof -
  have run: "parse_options reliable [(CHR ''c'', ''a;;b;''), (CHR ''s'', ''servers'')]
          (default_settings reliable ''node'') idle_world =
     (idle_world, Next \<lparr>nprocs = 2, nodeName = ''node'', networkHosts = '';a;;b;;render1;render2'',
           quietMode = False, logLevel = EInfo\<rparr>)"
    by (simp add: handle_option_def default_settings_def reliable_def unlines_def isspace_def)
  have es: "concat (map (appended_entries reliable) [(CHR ''c'', ''a;;b;''), (CHR ''s'', ''servers'')])
      = [''a;;b;'', ''render1'', ''render2'']"
    by (simp add: appended_entries_def reliable_def unlines_def isspace_def kept_def)
  have plain: "\<forall>h\<in>set [''a'', ''b'']. h \<noteq> [] \<and> CHR '';'' \<notin> set h" by simp
  have t: "tokenize ''a;;b;'' '';'' = [''a'', ''b'']" by (simp add: tokenize_def)
  let ?opts = "[(CHR ''c'', ''a;;b;''), (CHR ''s'', ''servers'')]"
  let ?s = "\<lparr>nprocs = 2, nodeName = ''node'', networkHosts = '';a;;b;;render1;render2'',
           quietMode = False, logLevel = EInfo\<rparr>"
  note dropped = empty_fragments_dropped [of "[]" "[]" "[]" reliable ?opts "''node''" idle_world
      idle_world ?s "[''a'', ''b'']"]
  from dropped run have "tokenize (networkHosts ?s) '';'' =
      concat (map (\<lambda>h. tokenize h '';'') (concat (map (appended_entries reliable) ?opts)))"
    by blast
  then have A: "tokenize '';a;;b;;render1;render2'' '';'' = [''a'', ''b'', ''render1'', ''render2'']"
    unfolding es by (simp add: t tokenize_plain)
  from dropped plain have B: "tokenize (concat (map ((#) CHR '';'') [''a'', ''b''])) '';'' = [''a'', ''b'']"
    by blast
  show ?thesis
    using run A B by simp
qed

end
